theory Spec2Isabelle
  imports Complex_Main
begin

section \<open>Errors raised by the Python code\<close>

text \<open>
  Every \<^verbatim>\<open>assert\<close>, every dictionary lookup and every attribute access of the
  source that can raise is a branch of the model returning \<open>Inl\<close> of one of the Python
  exceptions below.  \<open>OutsideModel\<close> is not a Python exception: it marks an input on
  which the code does not raise but whose result the types of the model cannot hold.
\<close>

datatype error =
    AssertionError | KeyError string | AttributeError | TypeError | RuntimeError
  | OutsideModel

section \<open>The gradient scaler: training/optimizer/grad_scalar.py\<close>

text \<open>
  \<^verbatim>\<open>DynamicGradScaler\<close> holds three one-element float tensors (\<^verbatim>\<open>_scale\<close>,
  \<^verbatim>\<open>min_scale\<close>, \<^verbatim>\<open>growth_factor\<close>, \<^verbatim>\<open>backoff_factor\<close>) and four Python integers.
  A one-element tensor is modelled by its element, of a type \<open>'a\<close> that is only required to
  carry the operations the code applies to it: \<open>*\<close> for tensor multiplication, \<open>max\<close> for
  \<^verbatim>\<open>torch.max\<close>.  The structural facts below hold for every such type; facts that
  depend on the arithmetic are stated for the float values defined below, which have
  infinities and NaN.  Python integers are \<open>int\<close>.  The \<^verbatim>\<open>device\<close> argument only places
  the tensors and is left out, as are the \<^verbatim>\<open>print\<close> calls.
\<close>

record 'a dynamic_grad_scaler =
  scale :: 'a
  min_scale :: 'a
  growth_factor :: 'a
  backoff_factor :: 'a
  growth_interval :: int
  hysteresis :: int
  growth_tracker :: int
  hysteresis_tracker :: int

text \<open>
  The constructors compare their arguments, which are Python numbers of a type \<open>'p\<close>,
  with \<^verbatim>\<open>0.0\<close> and \<^verbatim>\<open>1.0\<close>, and store not the arguments but the tensors
  \<^verbatim>\<open>torch.cuda.FloatTensor([x])\<close> made from them.  \<open>FloatTensor x\<close> is the outcome of that
  call: the element of the tensor, which is the conversion of \<open>x\<close> to a 32-bit float, or
  the error it raises (no device, a Python integer too large to convert).  It is a
  parameter of the constructors, so that what is proved of them holds for every
  conversion.

  \<^verbatim>\<open>GradScaler.__init__\<close>: one assertion, then the tensor of the scale is made and stored.
\<close>

definition GradScaler_init :: "('p::{zero,ord} \<Rightarrow> error + 'a) \<Rightarrow> 'p \<Rightarrow> error + 'a" where
  "GradScaler_init FloatTensor initial_scale =
     (if \<not> 0 < initial_scale then Inl AssertionError else FloatTensor initial_scale)"

text \<open>
  \<^verbatim>\<open>DynamicGradScaler.__init__\<close>: the base constructor, then the assertions, each on the
  argument as it was passed, and the tensors, in the order of the source, then the two
  trackers.
\<close>

definition DynamicGradScaler_init ::
  "('p::{zero,one,ord} \<Rightarrow> error + 'a) \<Rightarrow> 'p \<Rightarrow> 'p \<Rightarrow> 'p \<Rightarrow> 'p \<Rightarrow> int \<Rightarrow> int
     \<Rightarrow> error + 'a dynamic_grad_scaler" where
  "DynamicGradScaler_init FloatTensor initial_scale min_scale' growth_factor' backoff_factor'
       growth_interval' hysteresis' =
     (case GradScaler_init FloatTensor initial_scale of
        Inl e \<Rightarrow> Inl e
      | Inr scale0 \<Rightarrow>
     if \<not> 0 < min_scale' then Inl AssertionError
     else if \<not> min_scale' \<le> initial_scale then Inl AssertionError
     else
     (case FloatTensor min_scale' of
        Inl e \<Rightarrow> Inl e
      | Inr min_scale0 \<Rightarrow>
     if \<not> 1 < growth_factor' then Inl AssertionError
     else
     (case FloatTensor growth_factor' of
        Inl e \<Rightarrow> Inl e
      | Inr growth_factor0 \<Rightarrow>
     if \<not> backoff_factor' < 1 then Inl AssertionError
     else if \<not> 0 < backoff_factor' then Inl AssertionError
     else
     (case FloatTensor backoff_factor' of
        Inl e \<Rightarrow> Inl e
      | Inr backoff_factor0 \<Rightarrow>
     if \<not> 0 < growth_interval' then Inl AssertionError
     else if \<not> 0 < hysteresis' then Inl AssertionError
     else Inr \<lparr> scale = scale0, min_scale = min_scale0,
                growth_factor = growth_factor0, backoff_factor = backoff_factor0,
                growth_interval = growth_interval', hysteresis = hysteresis',
                growth_tracker = 0, hysteresis_tracker = hysteresis' \<rparr>))))"

text \<open>\<^verbatim>\<open>DynamicGradScaler.update\<close>, statement by statement.\<close>

definition update :: "('a::{times,ord}) dynamic_grad_scaler \<Rightarrow> bool \<Rightarrow> 'a dynamic_grad_scaler" where
  "update self found_inf =
     (if found_inf then
        (let s1 = self\<lparr>growth_tracker := 0\<rparr>;
             s2 = s1\<lparr>hysteresis_tracker := hysteresis_tracker s1 - 1\<rparr>
         in if hysteresis_tracker s2 \<le> 0
            then s2\<lparr>scale := max (scale s2 * backoff_factor s2) (min_scale s2)\<rparr>
            else s2)
      else
        (let s1 = self\<lparr>growth_tracker := growth_tracker self + 1\<rparr>
         in if growth_tracker s1 = growth_interval s1
            then (let s2 = s1\<lparr>growth_tracker := 0\<rparr>;
                      s3 = s2\<lparr>hysteresis_tracker := hysteresis s2\<rparr>
                  in s3\<lparr>scale := scale s3 * growth_factor s3\<rparr>)
            else s1))"

text \<open>A sequence of \<^verbatim>\<open>update\<close> calls on the same object, first call first.\<close>

fun updates :: "('a::{times,ord}) dynamic_grad_scaler \<Rightarrow> bool list \<Rightarrow> 'a dynamic_grad_scaler" where
  "updates self [] = self"
| "updates self (found_inf # rest) = updates (update self found_inf) rest"

text \<open>
  The checkpoint dictionary.  Its values are Python objects: a tensor or an integer.
\<close>

datatype 'a pyval = Tensor 'a | PyInt int

definition state_dict :: "'a dynamic_grad_scaler \<Rightarrow> (string \<rightharpoonup> 'a pyval)" where
  "state_dict self =
     [''scale'' \<mapsto> Tensor (scale self),
      ''growth_tracker'' \<mapsto> PyInt (growth_tracker self),
      ''hysteresis_tracker'' \<mapsto> PyInt (hysteresis_tracker self)]"

text \<open>
  \<^verbatim>\<open>DynamicGradScaler.load_state_dict\<close>: three lookups, each raising \<^verbatim>\<open>KeyError\<close> on
  a missing key; \<^verbatim>\<open>.to(self.device)\<close> needs a tensor (an integer has no such attribute)
  and keeps the tensor's element.  The two trackers are stored as they come, with no
  check at all.  The model keeps the trackers as \<open>int\<close>, as the constructor and \<^verbatim>\<open>update\<close>
  leave them, so it cannot hold a tracker entry that is a tensor: the code stores such
  an entry as it does any other, and the model answers \<open>OutsideModel\<close>.  On an error the
  Python object keeps the fields assigned before the raise; the model returns the error
  only.
\<close>

definition load_state_dict ::
  "'a dynamic_grad_scaler \<Rightarrow> (string \<rightharpoonup> 'a pyval) \<Rightarrow> error + 'a dynamic_grad_scaler" where
  "load_state_dict self sd =
     (case sd ''scale'' of
        None \<Rightarrow> Inl (KeyError ''scale'')
      | Some (PyInt _) \<Rightarrow> Inl AttributeError
      | Some (Tensor x) \<Rightarrow>
          (case sd ''growth_tracker'' of
             None \<Rightarrow> Inl (KeyError ''growth_tracker'')
           | Some (Tensor _) \<Rightarrow> Inl OutsideModel
           | Some (PyInt g) \<Rightarrow>
               (case sd ''hysteresis_tracker'' of
                  None \<Rightarrow> Inl (KeyError ''hysteresis_tracker'')
                | Some (Tensor _) \<Rightarrow> Inl OutsideModel
                | Some (PyInt h) \<Rightarrow>
                    Inr (self\<lparr>scale := x, growth_tracker := g, hysteresis_tracker := h\<rparr>))))"

section \<open>Float values\<close>

text \<open>
  The numbers the scaler computes with are floats: the constructor's arguments are Python
  floats, the tensors hold 32-bit floats.  A float is a finite number, one of the two
  infinities, or NaN.  Comparisons follow IEEE 754: every comparison with NaN is false.
  \<open>round_float32\<close> brings a real number into the range of 32-bit floats, rounding to
  nearest: from \<open>2^128 - 2^103\<close> on (the midpoint between the largest 32-bit float and
  \<open>2^128\<close>) the result is infinite, up to \<open>2^-150\<close> (the midpoint between 0 and the
  smallest positive 32-bit float) it is 0.  In between the number is kept as it is: the
  rounding of the mantissa to 24 bits is not modelled, nor is the sign of zero.
  \<open>to_float32\<close> is the conversion of a float to a 32-bit float, and the product is the
  one of 32-bit floats, with \<open>0 * \<infinity>\<close> being NaN.  With these comparisons \<open>max x m\<close> is
  \<open>x\<close> when \<open>x\<close> is NaN, as \<^verbatim>\<open>torch.max\<close> gives NaN then; the second argument of
  \<^verbatim>\<open>torch.max\<close> in \<^verbatim>\<open>update\<close> is \<open>min_scale\<close>, which the constructor never makes NaN.
\<close>

datatype float_value = Finite real | PosInf | NegInf | NaN

fun float_le :: "float_value \<Rightarrow> float_value \<Rightarrow> bool" where
  "float_le NaN _ = False"
| "float_le _ NaN = False"
| "float_le NegInf _ = True"
| "float_le _ PosInf = True"
| "float_le (Finite a) (Finite b) = (a \<le> b)"
| "float_le PosInf _ = False"
| "float_le _ NegInf = False"

fun float_lt :: "float_value \<Rightarrow> float_value \<Rightarrow> bool" where
  "float_lt NaN _ = False"
| "float_lt _ NaN = False"
| "float_lt (Finite a) (Finite b) = (a < b)"
| "float_lt PosInf _ = False"
| "float_lt _ NegInf = False"
| "float_lt NegInf _ = True"
| "float_lt _ PosInf = True"

definition round_float32 :: "real \<Rightarrow> float_value" where
  "round_float32 x =
     (if 2 ^ 128 - 2 ^ 103 \<le> x then PosInf
      else if x \<le> - (2 ^ 128 - 2 ^ 103) then NegInf
      else if \<bar>x\<bar> \<le> 1 / 2 ^ 150 then Finite 0
      else Finite x)"

fun to_float32 :: "float_value \<Rightarrow> float_value" where
  "to_float32 (Finite x) = round_float32 x"
| "to_float32 v = v"

text \<open>
  \<^verbatim>\<open>torch.cuda.FloatTensor([x])\<close> for a Python float \<open>x\<close>, on a machine where it does not
  raise.
\<close>

definition float32_tensor :: "float_value \<Rightarrow> error + float_value" where
  "float32_tensor x = Inr (to_float32 x)"

fun float_mul :: "float_value \<Rightarrow> float_value \<Rightarrow> float_value" where
  "float_mul NaN _ = NaN"
| "float_mul _ NaN = NaN"
| "float_mul (Finite a) (Finite b) = round_float32 (a * b)"
| "float_mul (Finite a) PosInf = (if a = 0 then NaN else if 0 < a then PosInf else NegInf)"
| "float_mul (Finite a) NegInf = (if a = 0 then NaN else if 0 < a then NegInf else PosInf)"
| "float_mul PosInf (Finite b) = (if b = 0 then NaN else if 0 < b then PosInf else NegInf)"
| "float_mul NegInf (Finite b) = (if b = 0 then NaN else if 0 < b then NegInf else PosInf)"
| "float_mul PosInf PosInf = PosInf"
| "float_mul PosInf NegInf = NegInf"
| "float_mul NegInf PosInf = NegInf"
| "float_mul NegInf NegInf = PosInf"

instantiation float_value :: "{zero, one, ord, times}"
begin

definition zero_float_value :: float_value where
  "zero_float_value = Finite 0"

definition one_float_value :: float_value where
  "one_float_value = Finite 1"

definition less_eq_float_value :: "float_value \<Rightarrow> float_value \<Rightarrow> bool" where
  "less_eq_float_value = float_le"

definition less_float_value :: "float_value \<Rightarrow> float_value \<Rightarrow> bool" where
  "less_float_value = float_lt"

definition times_float_value :: "float_value \<Rightarrow> float_value \<Rightarrow> float_value" where
  "times_float_value = float_mul"

instance ..

end

section \<open>The data-parallel coordinator: training/data_parallel/dist_dp_allreduce.py\<close>

text \<open>
  \<^verbatim>\<open>AllReduceDP\<close> issues operations on two CUDA streams and orders them with CUDA
  events.  An event is identified by the attribute that holds it; the two dictionaries of
  per-parameter events are indexed by the parameter's name.  \<open>OtherEvent\<close> stands for events
  created elsewhere (the reference event handed to \<^verbatim>\<open>set_time_stamp\<close>).
\<close>

datatype event =
    BackwardReadyEvent
  | AllreduceGradReadyEvent
  | OptimizerStepReadyEvent
  | AllreduceGradientsStartEvent
  | AllreduceGradientsStartEvents string
  | AllreduceGradientsEndEvents string
  | OptimizerStepStartEvent
  | OtherEvent nat

text \<open>
  The two streams of the object: \<^verbatim>\<open>dp_comm_stream\<close> and \<^verbatim>\<open>torch_optim_comp_stream\<close>.
\<close>

datatype stream = DpCommStream | TorchOptimCompStream

text \<open>
  What the object puts on a stream.  \<open>WaitEvent ev w\<close> is \<^verbatim>\<open>stream.wait_event(ev)\<close>: a wait
  refers to the record of the event that was the latest one when \<^verbatim>\<open>wait_event\<close> was called,
  so the operation carries it: \<open>w = Some (st, i)\<close> is operation number \<open>i\<close> of stream \<open>st\<close>,
  and \<open>w = None\<close> says that the event had not been recorded.  \<open>AllReduce b\<close> is
  \<^verbatim>\<open>dp_comm.all_reduce\<close> on the buffer \<open>b\<close>, \<open>OptimizerStep\<close> is \<^verbatim>\<open>optimizer.step()\<close>.
\<close>

datatype buffer = FlattenParaGrad | ParaGrad string

datatype stream_op =
    WaitEvent event "(stream \<times> nat) option"
  | RecordEvent event
  | AllReduce buffer
  | OptimizerStep

text \<open>
  A parameter of the module, as far as the code looks at it: the number of elements of its
  data, and whether \<^verbatim>\<open>para.grad\<close> is present.  \<^verbatim>\<open>module.named_parameters()\<close> is a list
  of named parameters, in its order.
\<close>

record parameter =
  numel :: nat
  has_grad :: bool

text \<open>The fields of \<^verbatim>\<open>args\<close> that the constructor reads.\<close>

record args =
  rank :: int
  data_group_size :: int
  profiling :: string

text \<open>
  The object.  The two streams are kept as the list of operations issued on them so far,
  oldest first; \<open>last_record\<close> is the state of the event objects: where each event was
  recorded last.  An attribute that \<^verbatim>\<open>__init__\<close> creates only in some modes is an
  \<open>option\<close>, \<open>None\<close> when the attribute is missing or holds \<^verbatim>\<open>None\<close>: reading through it
  raises \<^verbatim>\<open>AttributeError\<close> in both cases.  \<open>flatten_para\<close> keeps the number of elements
  of the flattened gradient.  Time stamps are Python floats, modelled as reals.  The
  communicator handle, the rank in the group and the three diagnostic prints are left out.
\<close>

record allreduce_dp =
  flatten :: bool
  global_rank :: int
  dp_group_size :: int
  enable_tidy_profiling :: bool
  dp_comm_stream :: "stream_op list"
  torch_optim_comp_stream :: "stream_op list"
  last_record :: "event \<Rightarrow> (stream \<times> nat) option"
  module :: "(string \<times> parameter) list"
  flatten_para :: "nat option"
  init_event :: "event option"
  init_time_stamp :: "real option"
  allreduce_gradients_start_event :: "event option"
  allreduce_gradients_start_events :: "(string \<rightharpoonup> event) option"
  allreduce_gradients_end_events :: "(string \<rightharpoonup> event) option"
  optimizer_step_start_event :: "event option"

text \<open>
  The stream methods of \<^verbatim>\<open>torch.cuda.Stream\<close> that the code calls.  \<^verbatim>\<open>record_event\<close>
  puts a record on the stream and makes it the latest record of the event;
  \<^verbatim>\<open>wait_event\<close> puts a wait for the latest record of the event on the stream.
\<close>

definition stream_ops :: "allreduce_dp \<Rightarrow> stream \<Rightarrow> stream_op list" where
  "stream_ops self st =
     (case st of DpCommStream \<Rightarrow> dp_comm_stream self
               | TorchOptimCompStream \<Rightarrow> torch_optim_comp_stream self)"

definition enqueue :: "stream \<Rightarrow> stream_op \<Rightarrow> allreduce_dp \<Rightarrow> allreduce_dp" where
  "enqueue st opn self =
     (case st of
        DpCommStream \<Rightarrow> self\<lparr>dp_comm_stream := dp_comm_stream self @ [opn]\<rparr>
      | TorchOptimCompStream \<Rightarrow>
          self\<lparr>torch_optim_comp_stream := torch_optim_comp_stream self @ [opn]\<rparr>)"

definition record_event :: "stream \<Rightarrow> event \<Rightarrow> allreduce_dp \<Rightarrow> allreduce_dp" where
  "record_event st ev self =
     (enqueue st (RecordEvent ev) self)
       \<lparr>last_record := (last_record self)(ev := Some (st, length (stream_ops self st)))\<rparr>"

definition wait_event :: "stream \<Rightarrow> event \<Rightarrow> allreduce_dp \<Rightarrow> allreduce_dp" where
  "wait_event st ev self = enqueue st (WaitEvent ev (last_record self ev)) self"

text \<open>
  Modelled from the spec: \<^verbatim>\<open>flatten_params\<close> of \<^verbatim>\<open>flatten_utils\<close>, which is not among the
  sources.  The spec describes its result as one contiguous buffer whose length is the
  total element count across all parameters; only that length is used here.
\<close>

definition flatten_params :: "(string \<times> parameter) list \<Rightarrow> nat" where
  "flatten_params named_parameters = sum_list (map (\<lambda>(n, para). numel para) named_parameters)"

text \<open>
  \<^verbatim>\<open>AllReduceDP.__init__\<close>.  \<open>default_stream\<close> is what the device's default stream holds
  when the object is created; the communication stream and the events are new.  The only
  statement that can raise is \<^verbatim>\<open>assert optimizer is not None\<close>.
\<close>

definition AllReduceDP_init ::
  "args \<Rightarrow> stream_op list \<Rightarrow> (string \<times> parameter) list \<Rightarrow> 'optimizer option \<Rightarrow> bool
     \<Rightarrow> error + allreduce_dp" where
  "AllReduceDP_init a default_stream module' optimizer flatten' =
     (let enable = (profiling a = ''tidy_profiling'');
          names = map fst module'
      in case optimizer of
           None \<Rightarrow> Inl AssertionError
         | Some _ \<Rightarrow>
             Inr \<lparr> flatten = flatten',
                   global_rank = rank a,
                   dp_group_size = data_group_size a,
                   enable_tidy_profiling = enable,
                   dp_comm_stream = [],
                   torch_optim_comp_stream = default_stream,
                   last_record = (\<lambda>ev. None),
                   module = module',
                   flatten_para = (if flatten' then Some (flatten_params module') else None),
                   init_event = None,
                   init_time_stamp = None,
                   allreduce_gradients_start_event =
                     (if enable \<and> flatten' then Some AllreduceGradientsStartEvent else None),
                   allreduce_gradients_start_events =
                     (if enable \<and> \<not> flatten'
                      then Some (\<lambda>n. if n \<in> set names then Some (AllreduceGradientsStartEvents n) else None)
                      else None),
                   allreduce_gradients_end_events =
                     (if enable \<and> \<not> flatten'
                      then Some (\<lambda>n. if n \<in> set names then Some (AllreduceGradientsEndEvents n) else None)
                      else None),
                   optimizer_step_start_event =
                     (if enable then Some OptimizerStepStartEvent else None) \<rparr>)"

text \<open>
  The three profiling markers.  \<^verbatim>\<open>profile_mark_allreduce_start\<close> tests
  \<^verbatim>\<open>name is None\<close>; \<^verbatim>\<open>profile_mark_allreduce_end\<close> tests the truth value of
  \<^verbatim>\<open>name\<close>, which is false for \<^verbatim>\<open>None\<close> and for the empty string.
\<close>

definition profile_mark_allreduce_start :: "allreduce_dp \<Rightarrow> string option \<Rightarrow> error + allreduce_dp" where
  "profile_mark_allreduce_start self name =
     (if enable_tidy_profiling self then
        (case name of
           None \<Rightarrow>
             (case allreduce_gradients_start_event self of
                None \<Rightarrow> Inl AttributeError
              | Some ev \<Rightarrow> Inr (record_event DpCommStream ev self))
         | Some n \<Rightarrow>
             (case allreduce_gradients_start_events self of
                None \<Rightarrow> Inl AttributeError
              | Some d \<Rightarrow>
                  (case d n of
                     None \<Rightarrow> Inl (KeyError n)
                   | Some ev \<Rightarrow> Inr (record_event DpCommStream ev self))))
      else Inr self)"

definition profile_mark_allreduce_end :: "allreduce_dp \<Rightarrow> string option \<Rightarrow> error + allreduce_dp" where
  "profile_mark_allreduce_end self name =
     (case name of
        None \<Rightarrow> Inr self
      | Some n \<Rightarrow>
          if enable_tidy_profiling self \<and> n \<noteq> [] then
            (case allreduce_gradients_end_events self of
               None \<Rightarrow> Inl AttributeError
             | Some d \<Rightarrow>
                 (case d n of
                    None \<Rightarrow> Inl (KeyError n)
                  | Some ev \<Rightarrow> Inr (record_event DpCommStream ev self)))
          else Inr self)"

definition profile_mark_optimizer_step_start :: "allreduce_dp \<Rightarrow> error + allreduce_dp" where
  "profile_mark_optimizer_step_start self =
     (if enable_tidy_profiling self then
        (case optimizer_step_start_event self of
           None \<Rightarrow> Inl AttributeError
         | Some ev \<Rightarrow> Inr (record_event TorchOptimCompStream ev self))
      else Inr self)"

text \<open>
  The loop of \<^verbatim>\<open>_allreduce_gradients\<close> over \<^verbatim>\<open>module.named_parameters()\<close>: a parameter
  without gradient is skipped.
\<close>

fun allreduce_named_parameters ::
  "(string \<times> parameter) list \<Rightarrow> allreduce_dp \<Rightarrow> error + allreduce_dp" where
  "allreduce_named_parameters [] self = Inr self"
| "allreduce_named_parameters ((name, para) # rest) self =
     (if \<not> has_grad para then allreduce_named_parameters rest self
      else
        (case profile_mark_allreduce_start self (Some name) of
           Inl e \<Rightarrow> Inl e
         | Inr s1 \<Rightarrow>
             (case profile_mark_allreduce_end
                     (enqueue DpCommStream (AllReduce (ParaGrad name)) s1) (Some name) of
                Inl e \<Rightarrow> Inl e
              | Inr s2 \<Rightarrow> allreduce_named_parameters rest s2)))"

text \<open>\<^verbatim>\<open>AllReduceDP._allreduce_gradients\<close>.\<close>

definition allreduce_gradients :: "allreduce_dp \<Rightarrow> error + allreduce_dp" where
  "allreduce_gradients self =
     (let s0 = wait_event DpCommStream BackwardReadyEvent self in
      case (if flatten s0 then
              (case profile_mark_allreduce_start s0 None of
                 Inl e \<Rightarrow> Inl e
               | Inr s1 \<Rightarrow>
                   (case flatten_para s1 of
                      None \<Rightarrow> Inl AttributeError
                    | Some _ \<Rightarrow>
                        profile_mark_allreduce_end
                          (enqueue DpCommStream (AllReduce FlattenParaGrad) s1) None))
            else allreduce_named_parameters (module s0) s0) of
        Inl e \<Rightarrow> Inl e
      | Inr s2 \<Rightarrow> Inr (record_event DpCommStream AllreduceGradReadyEvent s2))"

text \<open>
  \<^verbatim>\<open>AllReduceDP.optimizer_step\<close>.  \<^verbatim>\<open>optimizer.step()\<close> runs with the compute stream as
  the current stream, so its work is one operation of that stream.
\<close>

definition optimizer_step :: "allreduce_dp \<Rightarrow> error + allreduce_dp" where
  "optimizer_step self =
     (case allreduce_gradients self of
        Inl e \<Rightarrow> Inl e
      | Inr s1 \<Rightarrow>
          (case profile_mark_optimizer_step_start
                  (wait_event TorchOptimCompStream AllreduceGradReadyEvent s1) of
             Inl e \<Rightarrow> Inl e
           | Inr s2 \<Rightarrow>
               Inr (record_event TorchOptimCompStream OptimizerStepReadyEvent
                      (enqueue TorchOptimCompStream OptimizerStep s2))))"

text \<open>
  \<^verbatim>\<open>set_time_stamp\<close> and \<^verbatim>\<open>get_ts\<close>.  \<^verbatim>\<open>Event.elapsed_time\<close> is a capability of the
  device: it is a parameter \<open>elapsed_time\<close>, which may raise (an event not recorded, or
  created without timing).  The factor \<^verbatim>\<open>1e+3\<close> is the number 1000.
\<close>

definition set_time_stamp :: "allreduce_dp \<Rightarrow> real \<Rightarrow> event \<Rightarrow> allreduce_dp" where
  "set_time_stamp self init_time_stamp' init_event' =
     self\<lparr>init_event := Some init_event', init_time_stamp := Some init_time_stamp'\<rparr>"

definition get_ts ::
  "(event \<Rightarrow> event \<Rightarrow> error + real) \<Rightarrow> allreduce_dp \<Rightarrow> event \<Rightarrow> error + real" where
  "get_ts elapsed_time self ev =
     (case init_event self of
        None \<Rightarrow> Inl AttributeError
      | Some ie \<Rightarrow>
          (case elapsed_time ie ev of
             Inl e \<Rightarrow> Inl e
           | Inr d \<Rightarrow>
               (case init_time_stamp self of
                  None \<Rightarrow> Inl TypeError
                | Some t \<Rightarrow> Inr (t + d * 1000))))"

text \<open>
  \<^verbatim>\<open>profiling_data_parallel\<close> returns a list of trace records (Python dictionaries with
  fixed keys, here a record; \<open>log_args\<close> holds \<^verbatim>\<open>para\<close> and \<^verbatim>\<open>size\<close> and is missing in the
  optimizer's record).  The model returns the object as well, since
  \<^verbatim>\<open>set_time_stamp\<close> has changed it.
\<close>

record trace_event =
  log_name :: string
  log_ph :: string
  log_pid :: int
  log_tid :: string
  log_ts :: real
  log_dur :: real
  log_cname :: string
  log_args :: "(string \<times> nat) option"

definition allreduce_log :: "allreduce_dp \<Rightarrow> real \<Rightarrow> real \<Rightarrow> string \<Rightarrow> nat \<Rightarrow> trace_event" where
  "allreduce_log self ts dur para size' =
     \<lparr> log_name = ''opt_allreduce'', log_ph = ''X'', log_pid = global_rank self,
       log_tid = ''7. optimizer-comm'', log_ts = ts, log_dur = dur,
       log_cname = ''cq_build_passed'', log_args = Some (para, size') \<rparr>"

fun allreduce_logs ::
  "(event \<Rightarrow> event \<Rightarrow> error + real) \<Rightarrow> allreduce_dp \<Rightarrow> (string \<times> parameter) list
     \<Rightarrow> error + trace_event list" where
  "allreduce_logs elapsed_time self [] = Inr []"
| "allreduce_logs elapsed_time self ((name, para) # rest) =
     (case allreduce_gradients_start_events self of
        None \<Rightarrow> Inl AttributeError
      | Some starts \<Rightarrow>
     (case starts name of
        None \<Rightarrow> Inl (KeyError name)
      | Some start_ev \<Rightarrow>
     (case allreduce_gradients_end_events self of
        None \<Rightarrow> Inl AttributeError
      | Some ends \<Rightarrow>
     (case ends name of
        None \<Rightarrow> Inl (KeyError name)
      | Some end_ev \<Rightarrow>
     (case elapsed_time start_ev end_ev of
        Inl e \<Rightarrow> Inl e
      | Inr d \<Rightarrow>
     (case get_ts elapsed_time self start_ev of
        Inl e \<Rightarrow> Inl e
      | Inr ts \<Rightarrow>
     (case allreduce_logs elapsed_time self rest of
        Inl e \<Rightarrow> Inl e
      | Inr logs \<Rightarrow>
          Inr (allreduce_log self ts (d * 1000) name (numel para) # logs))))))))"

definition profiling_data_parallel ::
  "(event \<Rightarrow> event \<Rightarrow> error + real) \<Rightarrow> allreduce_dp \<Rightarrow> real \<Rightarrow> event
     \<Rightarrow> error + (allreduce_dp \<times> trace_event list)" where
  "profiling_data_parallel elapsed_time self init_time_stamp' init_event' =
     (let s = set_time_stamp self init_time_stamp' init_event' in
      case (if flatten s then
              (case allreduce_gradients_start_event s of
                 None \<Rightarrow> Inl AttributeError
               | Some start_ev \<Rightarrow>
              (case elapsed_time start_ev AllreduceGradReadyEvent of
                 Inl e \<Rightarrow> Inl e
               | Inr d \<Rightarrow>
              (case get_ts elapsed_time s start_ev of
                 Inl e \<Rightarrow> Inl e
               | Inr ts \<Rightarrow>
              (case flatten_para s of
                 None \<Rightarrow> Inl AttributeError
               | Some n \<Rightarrow> Inr [allreduce_log s ts (d * 1000) ''flattened_grad'' n]))))
            else allreduce_logs elapsed_time s (module s)) of
        Inl e \<Rightarrow> Inl e
      | Inr profiling_log \<Rightarrow>
     (case optimizer_step_start_event s of
        None \<Rightarrow> Inl AttributeError
      | Some start_ev \<Rightarrow>
     (case elapsed_time start_ev OptimizerStepReadyEvent of
        Inl e \<Rightarrow> Inl e
      | Inr d \<Rightarrow>
     (case get_ts elapsed_time s start_ev of
        Inl e \<Rightarrow> Inl e
      | Inr ts \<Rightarrow>
          Inr (s, profiling_log @
                 [\<lparr> log_name = ''opt_comp'', log_ph = ''X'', log_pid = global_rank s,
                    log_tid = ''8. optimizer-comp'', log_ts = ts, log_dur = d * 1000,
                    log_cname = ''bad'', log_args = None \<rparr>])))))"

text \<open>
  Execution of the two streams.  A stream runs its operations in the order they were
  issued; the streams run concurrently.  \<open>done st\<close> is the number of operations stream \<open>st\<close>
  has completed.  The next operation of a stream can run unless it is a wait for a record
  that has not completed yet; a wait for an event that was never recorded does not block
  (as in CUDA).  A schedule names, step by step, the stream that is given the chance to
  run its next operation: every interleaving of the two streams is a schedule.
\<close>

definition runnable :: "allreduce_dp \<Rightarrow> (stream \<Rightarrow> nat) \<Rightarrow> stream \<Rightarrow> bool" where
  "runnable self done st =
     (done st < length (stream_ops self st) \<and>
      (case stream_ops self st ! done st of
         WaitEvent ev (Some (st', i)) \<Rightarrow> i < done st'
       | _ \<Rightarrow> True))"

definition tick :: "allreduce_dp \<Rightarrow> stream \<Rightarrow> (stream \<Rightarrow> nat) \<Rightarrow> (stream \<Rightarrow> nat)" where
  "tick self st done = (if runnable self done st then done(st := Suc (done st)) else done)"

fun run :: "allreduce_dp \<Rightarrow> stream list \<Rightarrow> (stream \<Rightarrow> nat) \<Rightarrow> (stream \<Rightarrow> nat)" where
  "run self [] done = done"
| "run self (st # schedule) done = run self schedule (tick self st done)"

definition completed :: "allreduce_dp \<Rightarrow> stream list \<Rightarrow> stream \<Rightarrow> nat" where
  "completed self schedule st = run self schedule (\<lambda>st. 0) st"

text \<open>A small coordinator, used to evaluate the operations on a concrete object.\<close>

definition example_args :: args where
  "example_args = \<lparr> rank = 0, data_group_size = 2, profiling = ''tidy_profiling'' \<rparr>"

definition example_module :: "(string \<times> parameter) list" where
  "example_module =
     [(''w'', \<lparr> numel = 4, has_grad = True \<rparr>), (''b'', \<lparr> numel = 2, has_grad = False \<rparr>)]"

definition example_dp :: allreduce_dp where
  "example_dp =
     \<lparr> flatten = True, global_rank = 0, dp_group_size = 2, enable_tidy_profiling = True,
       dp_comm_stream = [], torch_optim_comp_stream = [], last_record = (\<lambda>ev. None),
       module = example_module, flatten_para = Some 6, init_event = None,
       init_time_stamp = None,
       allreduce_gradients_start_event = Some AllreduceGradientsStartEvent,
       allreduce_gradients_start_events = None, allreduce_gradients_end_events = None,
       optimizer_step_start_event = Some OptimizerStepStartEvent \<rparr>"

text \<open>
  Two auxiliary notions for the proofs.  \<open>comm_appended s s'\<close>: from \<open>s\<close> to \<open>s'\<close>
  operations were issued on the communication stream only, and no attribute other than
  the streams and the events' state has changed.  \<open>attributes_set c\<close>: the attributes that
  the methods read in the mode of \<open>c\<close> are present, as \<^verbatim>\<open>__init__\<close> leaves them.
\<close>

definition comm_appended :: "allreduce_dp \<Rightarrow> allreduce_dp \<Rightarrow> bool" where
  "comm_appended s s' \<longleftrightarrow>
     torch_optim_comp_stream s' = torch_optim_comp_stream s \<and>
     (\<exists>ops. dp_comm_stream s' = dp_comm_stream s @ ops) \<and>
     flatten s' = flatten s \<and>
     enable_tidy_profiling s' = enable_tidy_profiling s \<and>
     module s' = module s \<and>
     flatten_para s' = flatten_para s \<and>
     allreduce_gradients_start_event s' = allreduce_gradients_start_event s \<and>
     allreduce_gradients_start_events s' = allreduce_gradients_start_events s \<and>
     allreduce_gradients_end_events s' = allreduce_gradients_end_events s \<and>
     optimizer_step_start_event s' = optimizer_step_start_event s"

definition attributes_set :: "allreduce_dp \<Rightarrow> bool" where
  "attributes_set c \<longleftrightarrow>
     (flatten c \<longrightarrow> flatten_para c \<noteq> None) \<and>
     (enable_tidy_profiling c \<longrightarrow> optimizer_step_start_event c \<noteq> None) \<and>
     (enable_tidy_profiling c \<and> flatten c \<longrightarrow> allreduce_gradients_start_event c \<noteq> None) \<and>
     (enable_tidy_profiling c \<and> \<not> flatten c \<longrightarrow>
        (\<exists>starts ends.
           allreduce_gradients_start_events c = Some starts \<and>
           allreduce_gradients_end_events c = Some ends \<and>
           (\<forall>n\<in>fst ` set (module c). starts n \<noteq> None \<and> ends n \<noteq> None)))"

section \<open>Properties of the gradient scaler\<close>

lemma update_True:
  "update s True =
     (if hysteresis_tracker s - 1 \<le> 0
      then s\<lparr>growth_tracker := 0, hysteresis_tracker := hysteresis_tracker s - 1,
             scale := max (scale s * backoff_factor s) (min_scale s)\<rparr>
      else s\<lparr>growth_tracker := 0, hysteresis_tracker := hysteresis_tracker s - 1\<rparr>)"
  by (simp add: update_def Let_def)

lemma update_False:
  "update s False =
     (if growth_tracker s + 1 = growth_interval s
      then s\<lparr>growth_tracker := 0, hysteresis_tracker := hysteresis s,
             scale := scale s * growth_factor s\<rparr>
      else s\<lparr>growth_tracker := growth_tracker s + 1\<rparr>)"
  by (simp add: update_def Let_def)

lemma updates_append: "updates s (xs @ ys) = updates (updates s xs) ys"
  by (induction xs arbitrary: s) simp_all

lemma update_config:
  "min_scale (update s b) = min_scale s"
  "growth_factor (update s b) = growth_factor s"
  "backoff_factor (update s b) = backoff_factor s"
  "growth_interval (update s b) = growth_interval s"
  "hysteresis (update s b) = hysteresis s"
  by (cases b; simp add: update_True update_False)+

lemma updates_config:
  "min_scale (updates s bs) = min_scale s"
  "growth_factor (updates s bs) = growth_factor s"
  "backoff_factor (updates s bs) = backoff_factor s"
  "growth_interval (updates s bs) = growth_interval s"
  "hysteresis (updates s bs) = hysteresis s"
  by (induction bs arbitrary: s; simp add: update_config)+

lemma updates_snoc: "updates s (replicate (Suc n) b) = update (updates s (replicate n b)) b"
  using updates_append [of s "replicate n b" "[b]"] by (simp add: replicate_append_same)

lemma updates_False_no_growth:
  "(\<forall>j\<in>{1..k}. growth_tracker s + int j \<noteq> growth_interval s) \<Longrightarrow>
     updates s (replicate k False) = s\<lparr>growth_tracker := growth_tracker s + int k\<rparr>"
proof (induction k)
  case 0
  then show ?case by simp
next
  case (Suc k)
  then have "updates s (replicate k False) = s\<lparr>growth_tracker := growth_tracker s + int k\<rparr>"
    by simp
  moreover have "growth_tracker s + int (Suc k) \<noteq> growth_interval s"
    using bspec [OF Suc.prems, of "Suc k"] by simp
  ultimately show ?case
    by (simp add: updates_snoc update_False add.assoc del: replicate.simps)
qed

lemma updates_True_no_backoff:
  "int (Suc k) < hysteresis_tracker s \<Longrightarrow>
     updates s (replicate (Suc k) True) =
       s\<lparr>growth_tracker := 0, hysteresis_tracker := hysteresis_tracker s - int (Suc k)\<rparr>"
proof (induction k)
  case 0
  then show ?case by (simp add: update_True)
next
  case (Suc k)
  then have "updates s (replicate (Suc k) True) =
       s\<lparr>growth_tracker := 0, hysteresis_tracker := hysteresis_tracker s - int (Suc k)\<rparr>"
    by simp
  then show ?case
    using Suc.prems by (simp add: updates_snoc [of s "Suc k"] update_True del: replicate.simps)
qed

lemma float_le_simps [simp]:
  "(Finite a \<le> Finite b) = (a \<le> b)"
  "(NaN \<le> v) = False" "(v \<le> NaN) = False"
  "(PosInf \<le> Finite b) = False" "(Finite a \<le> PosInf) = True" "(PosInf \<le> PosInf) = True"
  "(NegInf \<le> Finite b) = True" "(Finite a \<le> NegInf) = False" "(NegInf \<le> NegInf) = True"
  "(NegInf \<le> PosInf) = True" "(PosInf \<le> NegInf) = False"
  by (cases v; simp add: less_eq_float_value_def)+

lemma float_lt_simps [simp]:
  "(Finite a < Finite b) = (a < b)"
  "(NaN < v) = False" "(v < NaN) = False"
  "(PosInf < v) = False" "(v < NegInf) = False"
  "(Finite a < PosInf) = True" "(NegInf < Finite b) = True" "(NegInf < PosInf) = True"
  by (cases v; simp add: less_float_value_def)+

lemma float_times_simps [simp]:
  "Finite a * Finite b = round_float32 (a * b)"
  "NaN * v = NaN" "v * NaN = NaN"
  "Finite a * PosInf = (if a = 0 then NaN else if 0 < a then PosInf else NegInf)"
  "PosInf * Finite b = (if b = 0 then NaN else if 0 < b then PosInf else NegInf)"
  "PosInf * PosInf = PosInf"
  by (cases v; simp add: times_float_value_def)+

lemma float_zero_one [simp]: "(0::float_value) = Finite 0" "(1::float_value) = Finite 1"
  by (simp_all add: zero_float_value_def one_float_value_def)

lemma float_less_imp_le: "(v::float_value) < w \<Longrightarrow> v \<le> w"
  by (cases v; cases w; simp)

lemma to_float32_mono: "v \<le> w \<Longrightarrow> to_float32 v \<le> to_float32 w"
  by (cases v; cases w; auto simp: round_float32_def split: if_splits)

lemma to_float32_pos:
  "0 < to_float32 v \<Longrightarrow>
     to_float32 v = PosInf \<or> (\<exists>a. to_float32 v = Finite a \<and> 1 / 2 ^ 150 < a)"
  by (cases v; auto simp: round_float32_def split: if_splits)

lemma round_float32_pos:
  assumes "0 < r"
  shows "round_float32 r = PosInf \<or> round_float32 r = Finite 0 \<or> round_float32 r = Finite r"
proof -
  have "\<not> r \<le> - (2 ^ 128 - 2 ^ 103)" using assms by simp
  then show ?thesis by (simp add: round_float32_def)
qed

lemma float_growth_keeps_bound:
  assumes m: "m = PosInf \<or> (\<exists>a. m = Finite a \<and> 1 / 2 ^ 150 < a)"
    and g: "1 \<le> g" and x: "m \<le> x"
  shows "m \<le> x * g"
proof -
  have le: "a \<le> a * b" if "0 < a" "1 \<le> b" for a b :: real
    using that by (simp add: mult_le_cancel_left1)
  show ?thesis
  proof (cases x)
    case (Finite a)
    with m x obtain c where c: "m = Finite c" "1 / 2 ^ 150 < c" "c \<le> a"
      by (cases m) auto
    then have a: "0 < a" "1 / 2 ^ 150 < a" by auto
    show ?thesis
    proof (cases g)
      case (Finite b)
      then have "1 \<le> b" using g by simp
      then have "a \<le> a * b" using a(1) by (intro le)
      then have ab: "c \<le> a * b" "1 / 2 ^ 150 < a * b"
        using c(3) a(2) by linarith+
      have "round_float32 (a * b) = PosInf \<or> round_float32 (a * b) = Finite (a * b)"
      proof -
        have "0 < a * b" using ab(2) by (simp add: less_trans [OF _ ab(2)])
        then have "\<not> \<bar>a * b\<bar> \<le> 1 / 2 ^ 150" "\<not> a * b \<le> - (2 ^ 128 - 2 ^ 103)"
          using ab(2) by simp_all
        then show ?thesis unfolding round_float32_def by presburger
      qed
      then show ?thesis
        using Finite \<open>x = Finite a\<close> c(1) ab(1) by auto
    qed (use g Finite c a in auto)
  next
    case PosInf
    then show ?thesis using g m by (cases g; cases m; auto)
  qed (use x m in auto)
qed

lemma float_backoff_keeps_bound:
  assumes m: "m = PosInf \<or> (\<exists>a. m = Finite a \<and> 1 / 2 ^ 150 < a)"
    and b: "0 < b" and x: "m \<le> x"
  shows "m \<le> max (x * b) m"
proof -
  have mm: "m \<le> m" using m by auto
  have pos: "0 < a * c" if "0 < a" "0 < c" for a c :: real
    using that by simp
  have "x * b = PosInf \<or> (\<exists>r. x * b = Finite r)"
  proof (cases x)
    case (Finite a)
    then have "0 < a" using m x by (cases m) auto
    then show ?thesis using Finite b round_float32_pos [OF pos [of a]]
      by (cases b) auto
  next
    case PosInf
    then show ?thesis using b by (cases b) auto
  qed (use x m in auto)
  then have "x * b \<le> m \<or> m \<le> x * b"
    using m by (cases m) auto
  then show ?thesis
    using mm by (auto simp: max_def)
qed

lemma updates_keep_bound:
  fixes s :: "('a::{times,ord}) dynamic_grad_scaler"
  assumes "\<And>x. min_scale s \<le> x \<Longrightarrow> min_scale s \<le> x * growth_factor s"
    and "\<And>x. min_scale s \<le> x \<Longrightarrow> min_scale s \<le> max (x * backoff_factor s) (min_scale s)"
    and "min_scale s \<le> scale s"
  shows "min_scale s \<le> scale (updates s found_infs)"
  using assms
proof (induction found_infs arbitrary: s)
  case Nil
  then show ?case by simp
next
  case (Cons b bs)
  have step: "min_scale s \<le> scale (update s b)"
    using Cons.prems by (cases b) (simp_all add: update_True update_False)
  have "min_scale (update s b) \<le> scale (updates (update s b) bs)"
    by (rule Cons.IH) (simp_all add: update_config Cons.prems step)
  then show ?case by (simp add: update_config)
qed

text \<open>
  When the constructor returns: every assertion held, every tensor was made, and the
  scaler holds the tensors.
\<close>

lemma DynamicGradScaler_init_Inr:
  fixes initial_scale :: "'p::{zero,one,ord}" and FloatTensor :: "'p \<Rightarrow> error + 'a"
  shows "(DynamicGradScaler_init FloatTensor initial_scale min_scale' growth_factor'
             backoff_factor' growth_interval' hysteresis' = Inr s) =
         (0 < initial_scale \<and> 0 < min_scale' \<and> min_scale' \<le> initial_scale
          \<and> 1 < growth_factor' \<and> backoff_factor' < 1 \<and> 0 < backoff_factor'
          \<and> 0 < growth_interval' \<and> 0 < hysteresis'
          \<and> FloatTensor initial_scale = Inr (scale s)
          \<and> FloatTensor min_scale' = Inr (min_scale s)
          \<and> FloatTensor growth_factor' = Inr (growth_factor s)
          \<and> FloatTensor backoff_factor' = Inr (backoff_factor s)
          \<and> growth_interval s = growth_interval' \<and> hysteresis s = hysteresis'
          \<and> growth_tracker s = 0 \<and> hysteresis_tracker s = hysteresis')"
  by (cases s)
     (auto simp: DynamicGradScaler_init_def GradScaler_init_def split: if_splits sum.splits)

text \<open>
  Claim C1, as amended.  Take a scaler constructed with parameters that pass every
  assertion, the stored tensors being the conversions of the arguments to 32-bit floats.
  If the stored \<open>min_scale\<close> and the stored \<open>backoff_factor\<close> are still positive (neither
  has underflowed to zero), then after every sequence of \<^verbatim>\<open>update(found_inf)\<close> calls the
  scale is at least the (unchanged) \<open>min_scale\<close>, also when it has overflowed to infinity.
  Without the proviso the claim fails, as the counterexample after the witness shows.
  \<open>2^-160\<close> passes the assertions on \<open>backoff_factor\<close> and is stored as 0: one growth step
  takes the scale \<open>2^127\<close> to infinity, and the backoff then computes \<open>\<infinity> * 0\<close>, which is
  NaN and compares with nothing.  And with \<open>2^-160\<close> as \<open>initial_scale\<close> and \<open>min_scale\<close>,
  both stored as 0, and an infinite \<open>growth_factor\<close>, the first growth step computes
  \<open>0 * \<infinity>\<close>.
\<close>

theorem scale_never_below_min_scale:
  assumes "DynamicGradScaler_init float32_tensor initial_scale min_scale' growth_factor'
             backoff_factor' growth_interval' hysteresis' = Inr s0"
    and "0 < min_scale s0" and "0 < backoff_factor s0"
  shows "min_scale (updates s0 found_infs) = min_scale s0 \<and>
         min_scale s0 \<le> scale (updates s0 found_infs)"
proof -
  note init = assms(1) [unfolded DynamicGradScaler_init_Inr float32_tensor_def]
  have stored: "min_scale s0 = to_float32 min_scale'" "scale s0 = to_float32 initial_scale"
    "growth_factor s0 = to_float32 growth_factor'"
    using init by simp_all
  have m: "min_scale s0 = PosInf \<or> (\<exists>a. min_scale s0 = Finite a \<and> 1 / 2 ^ 150 < a)"
    using assms(2) unfolding stored by (rule to_float32_pos)
  have args: "1 < growth_factor'" "min_scale' \<le> initial_scale"
    using init by blast+
  have s: "min_scale s0 \<le> scale s0"
    unfolding stored using args(2) by (rule to_float32_mono)
  have "to_float32 (Finite 1) \<le> to_float32 growth_factor'"
    using args(1) by (intro to_float32_mono float_less_imp_le) simp
  then have g: "1 \<le> growth_factor s0"
    by (simp add: stored round_float32_def)
  have "min_scale s0 \<le> scale (updates s0 found_infs)"
    using float_growth_keeps_bound [OF m g] float_backoff_keeps_bound [OF m assms(3)] s
    by (rule updates_keep_bound)
  then show ?thesis by (simp add: updates_config)
qed

theorem scale_never_below_min_scale_witness:
  "DynamicGradScaler_init float32_tensor (Finite 65536) (Finite 1) (Finite 2) (Finite (1/2)) 2 1 =
     Inr \<lparr> scale = Finite 65536, min_scale = Finite 1, growth_factor = Finite 2,
           backoff_factor = Finite (1/2), growth_interval = 2, hysteresis = 1,
           growth_tracker = 0, hysteresis_tracker = 1 \<rparr>
   \<and> scale (updates \<lparr> scale = Finite 65536, min_scale = Finite 1, growth_factor = Finite 2,
           backoff_factor = Finite (1/2), growth_interval = 2, hysteresis = 1,
           growth_tracker = 0, hysteresis_tracker = 1 \<rparr> [False, False, True]) = Finite 65536
   \<and> Finite 1 \<le> scale (updates \<lparr> scale = Finite 65536, min_scale = Finite 1,
           growth_factor = Finite 2, backoff_factor = Finite (1/2), growth_interval = 2,
           hysteresis = 1, growth_tracker = 0, hysteresis_tracker = 1 \<rparr> [False, False, True])"
proof -
  let ?s0 = "\<lparr> scale = Finite 65536, min_scale = Finite 1, growth_factor = Finite 2,
           backoff_factor = Finite (1/2), growth_interval = 2, hysteresis = 1,
           growth_tracker = 0, hysteresis_tracker = 1 \<rparr>"
  have init: "DynamicGradScaler_init float32_tensor (Finite 65536) (Finite 1) (Finite 2)
                (Finite (1/2)) 2 1 = Inr ?s0"
    by (simp add: DynamicGradScaler_init_def GradScaler_init_def float32_tensor_def
        round_float32_def)
  have run: "scale (updates ?s0 [False, False, True]) = Finite 65536"
    by (simp add: update_True update_False round_float32_def max_def)
  have pos: "0 < min_scale ?s0" "0 < backoff_factor ?s0" by simp_all
  from scale_never_below_min_scale [OF init pos, of "[False, False, True]"]
  show ?thesis using init run by simp
qed

theorem scale_below_min_scale_counterexample:
  "DynamicGradScaler_init float32_tensor (Finite (2 ^ 127)) (Finite 1) (Finite 2)
       (Finite (1 / 2 ^ 160)) 1 1 =
     Inr \<lparr> scale = Finite (2 ^ 127), min_scale = Finite 1, growth_factor = Finite 2,
           backoff_factor = Finite 0, growth_interval = 1, hysteresis = 1,
           growth_tracker = 0, hysteresis_tracker = 1 \<rparr>
   \<and> scale (updates \<lparr> scale = Finite (2 ^ 127), min_scale = Finite 1, growth_factor = Finite 2,
           backoff_factor = Finite 0, growth_interval = 1, hysteresis = 1,
           growth_tracker = 0, hysteresis_tracker = 1 \<rparr> [False]) = PosInf
   \<and> scale (updates \<lparr> scale = Finite (2 ^ 127), min_scale = Finite 1, growth_factor = Finite 2,
           backoff_factor = Finite 0, growth_interval = 1, hysteresis = 1,
           growth_tracker = 0, hysteresis_tracker = 1 \<rparr> [False, True]) = NaN
   \<and> \<not> min_scale (updates \<lparr> scale = Finite (2 ^ 127), min_scale = Finite 1,
           growth_factor = Finite 2, backoff_factor = Finite 0, growth_interval = 1,
           hysteresis = 1, growth_tracker = 0, hysteresis_tracker = 1 \<rparr> [False, True])
       \<le> scale (updates \<lparr> scale = Finite (2 ^ 127), min_scale = Finite 1,
           growth_factor = Finite 2, backoff_factor = Finite 0, growth_interval = 1,
           hysteresis = 1, growth_tracker = 0, hysteresis_tracker = 1 \<rparr> [False, True])
   \<and> DynamicGradScaler_init float32_tensor (Finite (1 / 2 ^ 160)) (Finite (1 / 2 ^ 160)) PosInf
       (Finite (1 / 2)) 1 1 =
     Inr \<lparr> scale = Finite 0, min_scale = Finite 0, growth_factor = PosInf,
           backoff_factor = Finite (1 / 2), growth_interval = 1, hysteresis = 1,
           growth_tracker = 0, hysteresis_tracker = 1 \<rparr>
   \<and> scale (updates \<lparr> scale = Finite 0, min_scale = Finite 0, growth_factor = PosInf,
           backoff_factor = Finite (1 / 2), growth_interval = 1, hysteresis = 1,
           growth_tracker = 0, hysteresis_tracker = 1 \<rparr> [False]) = NaN
   \<and> \<not> min_scale (updates \<lparr> scale = Finite 0, min_scale = Finite 0, growth_factor = PosInf,
           backoff_factor = Finite (1 / 2), growth_interval = 1, hysteresis = 1,
           growth_tracker = 0, hysteresis_tracker = 1 \<rparr> [False])
       \<le> scale (updates \<lparr> scale = Finite 0, min_scale = Finite 0, growth_factor = PosInf,
           backoff_factor = Finite (1 / 2), growth_interval = 1, hysteresis = 1,
           growth_tracker = 0, hysteresis_tracker = 1 \<rparr> [False])"
  by (simp add: DynamicGradScaler_init_def GradScaler_init_def float32_tensor_def
      round_float32_def update_True update_False max_def)

lemma updates_True_backoff:
  "hysteresis_tracker s \<le> 1 \<Longrightarrow>
     hysteresis_tracker (updates s (replicate n True)) = hysteresis_tracker s - int n"
proof (induction n)
  case 0
  then show ?case by simp
next
  case (Suc n)
  then show ?case
    by (simp add: updates_snoc update_True del: replicate.simps)
qed

text \<open>
  Claim C2.  An \<^verbatim>\<open>update(True)\<close> call always leaves \<open>hysteresis_tracker\<close> one lower,
  whether or not the backoff fires, so a backoff does not reset it; an \<^verbatim>\<open>update(False)\<close>
  call sets it to \<open>hysteresis\<close> exactly when it completes a growth interval and leaves it
  unchanged otherwise.  Hence from a state with \<open>hysteresis_tracker \<le> 1\<close>, every one of any
  number of consecutive \<^verbatim>\<open>update(True)\<close> calls applies the backoff
  \<open>scale = max (scale * backoff_factor) min_scale\<close>, and after \<open>n\<close> calls the tracker is \<open>n\<close>
  lower, with no lower bound.
\<close>

theorem backoff_does_not_reset_hysteresis_tracker:
  fixes s :: "('a::{times,ord}) dynamic_grad_scaler"
  shows "hysteresis_tracker (update s True) = hysteresis_tracker s - 1
       \<and> hysteresis_tracker (update s False) =
           (if growth_tracker s + 1 = growth_interval s then hysteresis s
            else hysteresis_tracker s)
       \<and> (hysteresis_tracker s \<le> 1 \<longrightarrow>
            (\<forall>n. hysteresis_tracker (updates s (replicate n True)) = hysteresis_tracker s - int n
               \<and> scale (updates s (replicate (Suc n) True)) =
                   max (scale (updates s (replicate n True)) * backoff_factor s) (min_scale s)))"
proof (intro conjI impI allI)
  show "hysteresis_tracker (update s True) = hysteresis_tracker s - 1"
    by (simp add: update_True)
  show "hysteresis_tracker (update s False) =
           (if growth_tracker s + 1 = growth_interval s then hysteresis s
            else hysteresis_tracker s)"
    by (simp add: update_False)
next
  fix n
  assume le: "hysteresis_tracker s \<le> 1"
  show ht: "hysteresis_tracker (updates s (replicate n True)) = hysteresis_tracker s - int n"
    using le by (rule updates_True_backoff)
  have "hysteresis_tracker (updates s (replicate n True)) - 1 \<le> 0"
    using le ht by simp
  then show "scale (updates s (replicate (Suc n) True)) =
          max (scale (updates s (replicate n True)) * backoff_factor s) (min_scale s)"
    by (simp add: updates_snoc update_True updates_config del: replicate.simps)
qed

theorem backoff_does_not_reset_hysteresis_tracker_witness:
  "hysteresis_tracker (updates \<lparr> scale = 8::real, min_scale = 1, growth_factor = 2,
       backoff_factor = 1/2, growth_interval = 2, hysteresis = 1, growth_tracker = 0,
       hysteresis_tracker = 1 \<rparr> (replicate 5 True)) = - 4
   \<and> scale (updates \<lparr> scale = 8::real, min_scale = 1, growth_factor = 2,
       backoff_factor = 1/2, growth_interval = 2, hysteresis = 1, growth_tracker = 0,
       hysteresis_tracker = 1 \<rparr> (replicate (Suc 1) True)) = 2"
proof -
  let ?s = "\<lparr> scale = 8::real, min_scale = 1, growth_factor = 2,
       backoff_factor = 1/2, growth_interval = 2, hysteresis = 1, growth_tracker = 0,
       hysteresis_tracker = 1 \<rparr>"
  have le: "hysteresis_tracker ?s \<le> 1" by simp
  have one: "scale (updates ?s (replicate 1 True)) = 4"
    by (simp add: update_True)
  from backoff_does_not_reset_hysteresis_tracker [of ?s] le
  have a: "hysteresis_tracker (updates ?s (replicate 5 True)) = hysteresis_tracker ?s - int 5"
    and b: "scale (updates ?s (replicate (Suc 1) True)) =
       max (scale (updates ?s (replicate 1 True)) * backoff_factor ?s) (min_scale ?s)"
    by blast+
  show ?thesis using a b one by simp
qed

text \<open>
  Claim C3.  With \<open>growth_interval = N > 0\<close>, from a state with \<open>growth_tracker = 0\<close>: each
  of the first \<open>N - 1\<close> consecutive \<^verbatim>\<open>update(False)\<close> calls only counts (the scale and
  everything but \<open>growth_tracker\<close> are unchanged); the \<open>N\<close>-th call multiplies the scale by
  \<open>growth_factor\<close> once, resets \<open>growth_tracker\<close> to 0 and \<open>hysteresis_tracker\<close> to
  \<open>hysteresis\<close>.  No upper bound is enforced: after \<open>j\<close> such rounds the scale has been
  multiplied \<open>j\<close> times, unclamped.
\<close>

theorem growth_after_growth_interval:
  fixes s :: "('a::{times,ord}) dynamic_grad_scaler"
  assumes "growth_interval s = int N" "0 < N" "growth_tracker s = 0"
  shows "(\<forall>k<N. updates s (replicate k False) = s\<lparr>growth_tracker := int k\<rparr>)
       \<and> updates s (replicate N False) =
           s\<lparr>growth_tracker := 0, hysteresis_tracker := hysteresis s,
             scale := scale s * growth_factor s\<rparr>
       \<and> (\<forall>j. scale (updates s (replicate (j * N) False)) =
                ((\<lambda>x. x * growth_factor s) ^^ j) (scale s))"
proof -
  have before: "updates t (replicate k False) = t\<lparr>growth_tracker := int k\<rparr>"
    if "k < N" "growth_interval t = int N" "growth_tracker t = 0" for k and t :: "'a dynamic_grad_scaler"
    using updates_False_no_growth [of k t] that by simp
  have round: "updates t (replicate N False) =
           t\<lparr>growth_tracker := 0, hysteresis_tracker := hysteresis t,
             scale := scale t * growth_factor t\<rparr>"
    if "growth_interval t = int N" "growth_tracker t = 0" for t :: "'a dynamic_grad_scaler"
  proof -
    obtain M where N: "N = Suc M" using assms(2) by (cases N) simp_all
    have "updates t (replicate M False) = t\<lparr>growth_tracker := int M\<rparr>"
      using before [of M t] that N by simp
    then show ?thesis
      using that by (simp add: N updates_snoc update_False del: replicate.simps)
  qed
  have rounds: "updates s (replicate (j * N) False) =
        s\<lparr>growth_tracker := 0, hysteresis_tracker := (if j = 0 then hysteresis_tracker s else hysteresis s),
          scale := ((\<lambda>x. x * growth_factor s) ^^ j) (scale s)\<rparr>" for j
  proof (induction j)
    case 0
    then show ?case using assms(3) by simp
  next
    case (Suc j)
    let ?t = "updates s (replicate (j * N) False)"
    have "replicate (Suc j * N) False = replicate (j * N) False @ replicate N False"
      by (simp add: replicate_add [symmetric] add.commute)
    then have "updates s (replicate (Suc j * N) False) = updates ?t (replicate N False)"
      by (simp only: updates_append)
    also have "\<dots> = ?t\<lparr>growth_tracker := 0, hysteresis_tracker := hysteresis ?t,
             scale := scale ?t * growth_factor ?t\<rparr>"
      by (rule round) (simp_all add: updates_config assms Suc.IH)
    finally show ?case
      by (simp add: Suc.IH)
  qed
  show ?thesis
    using before [of _ s] round [of s] assms rounds by simp
qed

theorem growth_after_growth_interval_witness:
  "updates \<lparr> scale = 8::real, min_scale = 1, growth_factor = 2,
       backoff_factor = 1/2, growth_interval = 3, hysteresis = 2, growth_tracker = 0,
       hysteresis_tracker = 1 \<rparr> (replicate 2 False) =
     \<lparr> scale = 8::real, min_scale = 1, growth_factor = 2,
       backoff_factor = 1/2, growth_interval = 3, hysteresis = 2, growth_tracker = 2,
       hysteresis_tracker = 1 \<rparr>
   \<and> updates \<lparr> scale = 8::real, min_scale = 1, growth_factor = 2,
       backoff_factor = 1/2, growth_interval = 3, hysteresis = 2, growth_tracker = 0,
       hysteresis_tracker = 1 \<rparr> (replicate 3 False) =
     \<lparr> scale = 16::real, min_scale = 1, growth_factor = 2,
       backoff_factor = 1/2, growth_interval = 3, hysteresis = 2, growth_tracker = 0,
       hysteresis_tracker = 2 \<rparr>
   \<and> scale (updates \<lparr> scale = 8::real, min_scale = 1, growth_factor = 2,
       backoff_factor = 1/2, growth_interval = 3, hysteresis = 2, growth_tracker = 0,
       hysteresis_tracker = 1 \<rparr> (replicate (2 * 3) False)) = 32"
proof -
  let ?s = "\<lparr> scale = 8::real, min_scale = 1, growth_factor = 2,
       backoff_factor = 1/2, growth_interval = 3, hysteresis = 2, growth_tracker = 0,
       hysteresis_tracker = 1 \<rparr>"
  have h: "growth_interval ?s = int 3" "0 < (3::nat)" "growth_tracker ?s = 0" by simp_all
  note inst = growth_after_growth_interval [OF h]
  have a: "updates ?s (replicate 2 False) = ?s\<lparr>growth_tracker := int 2\<rparr>"
    using inst by simp
  have b: "updates ?s (replicate 3 False) =
       ?s\<lparr>growth_tracker := 0, hysteresis_tracker := hysteresis ?s,
             scale := scale ?s * growth_factor ?s\<rparr>"
    using inst by blast
  have c: "scale (updates ?s (replicate (2 * 3) False)) =
         ((\<lambda>x. x * growth_factor ?s) ^^ 2) (scale ?s)"
    using inst by blast
  show ?thesis
    using a b c by (simp add: numeral_2_eq_2)
qed

lemma update_True_trackers:
  "growth_tracker (update s True) = 0"
  "hysteresis_tracker (update s True) = hysteresis_tracker s - 1"
  by (simp_all add: update_True)

text \<open>
  Claim C4.  With \<open>hysteresis = H > 0\<close>, from a state with \<open>hysteresis_tracker = H\<close>: the
  scale is unchanged after fewer than \<open>H\<close> consecutive \<^verbatim>\<open>update(True)\<close> calls; the \<open>H\<close>-th
  call sets \<open>scale = max (scale * backoff_factor) min_scale\<close>, once; and every one of these
  calls sets \<open>growth_tracker\<close> to 0 and lowers \<open>hysteresis_tracker\<close> by 1.
\<close>

theorem backoff_after_hysteresis:
  fixes s :: "('a::{times,ord}) dynamic_grad_scaler"
  assumes "hysteresis s = int H" "hysteresis_tracker s = int H" "0 < H"
  shows "(\<forall>k<H. scale (updates s (replicate k True)) = scale s)
       \<and> updates s (replicate H True) =
           s\<lparr>growth_tracker := 0, hysteresis_tracker := 0,
             scale := max (scale s * backoff_factor s) (min_scale s)\<rparr>
       \<and> (\<forall>k<H. growth_tracker (updates s (replicate (Suc k) True)) = 0
               \<and> hysteresis_tracker (updates s (replicate (Suc k) True)) =
                   hysteresis_tracker (updates s (replicate k True)) - 1)"
proof -
  have before: "updates s (replicate (Suc k) True) =
       s\<lparr>growth_tracker := 0, hysteresis_tracker := int H - int (Suc k)\<rparr>"
    if "Suc k < H" for k
    using updates_True_no_backoff [of k s] that assms(2) by simp
  have unchanged: "scale (updates s (replicate k True)) = scale s" if "k < H" for k
  proof (cases k)
    case 0
    then show ?thesis by simp
  next
    case (Suc j)
    then show ?thesis using before [of j] that by simp
  qed
  obtain M where H: "H = Suc M" using assms(3) by (cases H) simp_all
  have last: "updates s (replicate H True) =
           s\<lparr>growth_tracker := 0, hysteresis_tracker := 0,
             scale := max (scale s * backoff_factor s) (min_scale s)\<rparr>"
  proof (cases M)
    case 0
    then show ?thesis using H assms(2) by (simp add: update_True)
  next
    case (Suc j)
    then have "updates s (replicate M True) =
       s\<lparr>growth_tracker := 0, hysteresis_tracker := int H - int M\<rparr>"
      using before [of j] H by simp
    then show ?thesis
      by (simp add: H updates_snoc update_True del: replicate.simps)
  qed
  have each: "growth_tracker (updates s (replicate (Suc k) True)) = 0
               \<and> hysteresis_tracker (updates s (replicate (Suc k) True)) =
                   hysteresis_tracker (updates s (replicate k True)) - 1" for k
    by (simp add: updates_snoc update_True_trackers del: replicate.simps)
  show ?thesis
    using unchanged last each by blast
qed

theorem backoff_after_hysteresis_witness:
  "scale (updates \<lparr> scale = 8::real, min_scale = 1, growth_factor = 2,
       backoff_factor = 1/2, growth_interval = 3, hysteresis = 3, growth_tracker = 1,
       hysteresis_tracker = 3 \<rparr> (replicate 2 True)) = 8
   \<and> updates \<lparr> scale = 8::real, min_scale = 1, growth_factor = 2,
       backoff_factor = 1/2, growth_interval = 3, hysteresis = 3, growth_tracker = 1,
       hysteresis_tracker = 3 \<rparr> (replicate 3 True) =
     \<lparr> scale = 4::real, min_scale = 1, growth_factor = 2,
       backoff_factor = 1/2, growth_interval = 3, hysteresis = 3, growth_tracker = 0,
       hysteresis_tracker = 0 \<rparr>
   \<and> growth_tracker (updates \<lparr> scale = 8::real, min_scale = 1, growth_factor = 2,
       backoff_factor = 1/2, growth_interval = 3, hysteresis = 3, growth_tracker = 1,
       hysteresis_tracker = 3 \<rparr> (replicate (Suc 0) True)) = 0
   \<and> hysteresis_tracker (updates \<lparr> scale = 8::real, min_scale = 1, growth_factor = 2,
       backoff_factor = 1/2, growth_interval = 3, hysteresis = 3, growth_tracker = 1,
       hysteresis_tracker = 3 \<rparr> (replicate (Suc 0) True)) = 2"
proof -
  let ?s = "\<lparr> scale = 8::real, min_scale = 1, growth_factor = 2,
       backoff_factor = 1/2, growth_interval = 3, hysteresis = 3, growth_tracker = 1,
       hysteresis_tracker = 3 \<rparr>"
  have h: "hysteresis ?s = int 3" "hysteresis_tracker ?s = int 3" "0 < (3::nat)" by simp_all
  note inst = backoff_after_hysteresis [OF h]
  have a: "scale (updates ?s (replicate 2 True)) = scale ?s"
    using inst by simp
  have b: "updates ?s (replicate 3 True) =
           ?s\<lparr>growth_tracker := 0, hysteresis_tracker := 0,
             scale := max (scale ?s * backoff_factor ?s) (min_scale ?s)\<rparr>"
    using inst by blast
  have c: "growth_tracker (updates ?s (replicate (Suc 0) True)) = 0
               \<and> hysteresis_tracker (updates ?s (replicate (Suc 0) True)) =
                   hysteresis_tracker (updates ?s (replicate 0 True)) - 1"
    using inst [THEN conjunct2, THEN conjunct2, rule_format, of 0] by (simp del: updates.simps replicate.simps)
  show ?thesis
    using a b c by simp
qed

lemma load_state_dict_config:
  assumes "load_state_dict t sd = Inr t'"
  shows "min_scale t' = min_scale t \<and> growth_factor t' = growth_factor t
       \<and> backoff_factor t' = backoff_factor t \<and> growth_interval t' = growth_interval t
       \<and> hysteresis t' = hysteresis t"
  using assms
  by (auto simp: load_state_dict_def split: option.splits pyval.splits)

text \<open>
  Claim C5.  \<^verbatim>\<open>load_state_dict(state_dict())\<close> restores \<open>scale\<close>, \<open>growth_tracker\<close> and
  \<open>hysteresis_tracker\<close> exactly (into the same object, or into another one \<open>t\<close>), for every
  state; the snapshot has exactly these three keys; and no successful
  \<^verbatim>\<open>load_state_dict\<close>, whatever the snapshot, changes \<open>min_scale\<close>, \<open>growth_factor\<close>,
  \<open>backoff_factor\<close>, \<open>growth_interval\<close> or \<open>hysteresis\<close>.
\<close>

theorem state_dict_round_trip:
  "load_state_dict t (state_dict s) =
       Inr (t\<lparr>scale := scale s, growth_tracker := growth_tracker s,
              hysteresis_tracker := hysteresis_tracker s\<rparr>)
   \<and> load_state_dict s (state_dict s) = Inr s
   \<and> dom (state_dict s) = {''scale'', ''growth_tracker'', ''hysteresis_tracker''}
   \<and> (\<forall>sd t'. load_state_dict t sd = Inr t' \<longrightarrow>
          min_scale t' = min_scale t \<and> growth_factor t' = growth_factor t
        \<and> backoff_factor t' = backoff_factor t \<and> growth_interval t' = growth_interval t
        \<and> hysteresis t' = hysteresis t)"
proof (intro conjI allI impI)
  show "load_state_dict t (state_dict s) =
       Inr (t\<lparr>scale := scale s, growth_tracker := growth_tracker s,
              hysteresis_tracker := hysteresis_tracker s\<rparr>)"
    by (simp add: load_state_dict_def state_dict_def)
  show "load_state_dict s (state_dict s) = Inr s"
    by (simp add: load_state_dict_def state_dict_def)
  show "dom (state_dict s) = {''scale'', ''growth_tracker'', ''hysteresis_tracker''}"
    by (auto simp: state_dict_def)
qed (simp_all add: load_state_dict_config)

theorem state_dict_round_trip_witness:
  "load_state_dict
     \<lparr> scale = 65536::real, min_scale = 1, growth_factor = 2, backoff_factor = 1/2,
       growth_interval = 2, hysteresis = 1, growth_tracker = 0, hysteresis_tracker = 1 \<rparr>
     (state_dict \<lparr> scale = 4::real, min_scale = 1, growth_factor = 2, backoff_factor = 1/2,
       growth_interval = 2, hysteresis = 1, growth_tracker = 1, hysteresis_tracker = - 3 \<rparr>)
   = Inr \<lparr> scale = 4::real, min_scale = 1, growth_factor = 2, backoff_factor = 1/2,
       growth_interval = 2, hysteresis = 1, growth_tracker = 1, hysteresis_tracker = - 3 \<rparr>
   \<and> min_scale \<lparr> scale = 4::real, min_scale = 1, growth_factor = 2, backoff_factor = 1/2,
       growth_interval = 2, hysteresis = 1, growth_tracker = 1, hysteresis_tracker = - 3 \<rparr> = 1"
proof -
  let ?t = "\<lparr> scale = 65536::real, min_scale = 1, growth_factor = 2, backoff_factor = 1/2,
       growth_interval = 2, hysteresis = 1, growth_tracker = 0, hysteresis_tracker = 1 \<rparr>"
  let ?s = "\<lparr> scale = 4::real, min_scale = 1, growth_factor = 2, backoff_factor = 1/2,
       growth_interval = 2, hysteresis = 1, growth_tracker = 1, hysteresis_tracker = - 3 \<rparr>"
  note inst = state_dict_round_trip [of ?t ?s]
  have a: "load_state_dict ?t (state_dict ?s) =
       Inr (?t\<lparr>scale := scale ?s, growth_tracker := growth_tracker ?s,
              hysteresis_tracker := hysteresis_tracker ?s\<rparr>)"
    using inst by (rule conjunct1)
  then have l: "load_state_dict ?t (state_dict ?s) = Inr ?s" by simp
  have "min_scale ?s = min_scale ?t"
    using inst [THEN conjunct2, THEN conjunct2, THEN conjunct2, rule_format, OF l]
    by (rule conjunct1)
  then show ?thesis using l by simp
qed

text \<open>
  Claim C9.  \<^verbatim>\<open>load_state_dict\<close> validates nothing: a snapshot with any scale \<open>x\<close> and any
  integers \<open>g\<close> and \<open>h\<close> as trackers is restored as it is.  If \<open>x < min_scale\<close>, the restored
  state violates \<open>scale \<ge> min_scale\<close>, and it still does after any number \<open>n\<close> of
  \<^verbatim>\<open>update(False)\<close> calls none of which completes a growth interval.
\<close>

theorem load_state_dict_no_validation:
  fixes s :: "('a::{times,ord}) dynamic_grad_scaler"
  shows "\<exists>s'. load_state_dict s [''scale'' \<mapsto> Tensor x, ''growth_tracker'' \<mapsto> PyInt g,
                                   ''hysteresis_tracker'' \<mapsto> PyInt h] = Inr s'
            \<and> s' = s\<lparr>scale := x, growth_tracker := g, hysteresis_tracker := h\<rparr>
            \<and> (x < min_scale s \<longrightarrow> scale s' < min_scale s'
                 \<and> (\<forall>n. (\<forall>k\<in>{1..n}. g + int k \<noteq> growth_interval s) \<longrightarrow>
                        scale (updates s' (replicate n False)) = x
                      \<and> scale (updates s' (replicate n False)) <
                          min_scale (updates s' (replicate n False))))"
proof -
  let ?s' = "s\<lparr>scale := x, growth_tracker := g, hysteresis_tracker := h\<rparr>"
  have l: "load_state_dict s [''scale'' \<mapsto> Tensor x, ''growth_tracker'' \<mapsto> PyInt g,
                              ''hysteresis_tracker'' \<mapsto> PyInt h] = Inr ?s'"
    by (simp add: load_state_dict_def)
  have p: "scale (updates ?s' (replicate n False)) = x"
    if "\<forall>k\<in>{1..n}. g + int k \<noteq> growth_interval s" for n
    using updates_False_no_growth [of n ?s'] that by simp
  show ?thesis
    using l p by (simp add: updates_config)
qed

theorem load_state_dict_no_validation_witness:
  "load_state_dict
     \<lparr> scale = 65536::real, min_scale = 1, growth_factor = 2, backoff_factor = 1/2,
       growth_interval = 1000, hysteresis = 2, growth_tracker = 0, hysteresis_tracker = 2 \<rparr>
     [''scale'' \<mapsto> Tensor (1/4), ''growth_tracker'' \<mapsto> PyInt 5, ''hysteresis_tracker'' \<mapsto> PyInt (- 7)]
   = Inr \<lparr> scale = 1/4, min_scale = 1, growth_factor = 2, backoff_factor = 1/2,
       growth_interval = 1000, hysteresis = 2, growth_tracker = 5, hysteresis_tracker = - 7 \<rparr>
   \<and> scale (updates \<lparr> scale = 1/4::real, min_scale = 1, growth_factor = 2, backoff_factor = 1/2,
       growth_interval = 1000, hysteresis = 2, growth_tracker = 5, hysteresis_tracker = - 7 \<rparr>
       (replicate 3 False)) = 1/4
   \<and> scale (updates \<lparr> scale = 1/4::real, min_scale = 1, growth_factor = 2, backoff_factor = 1/2,
       growth_interval = 1000, hysteresis = 2, growth_tracker = 5, hysteresis_tracker = - 7 \<rparr>
       (replicate 3 False))
     < min_scale (updates \<lparr> scale = 1/4::real, min_scale = 1, growth_factor = 2, backoff_factor = 1/2,
       growth_interval = 1000, hysteresis = 2, growth_tracker = 5, hysteresis_tracker = - 7 \<rparr>
       (replicate 3 False))"
proof -
  let ?s = "\<lparr> scale = 65536::real, min_scale = 1, growth_factor = 2, backoff_factor = 1/2,
       growth_interval = 1000, hysteresis = 2, growth_tracker = 0, hysteresis_tracker = 2 \<rparr>"
  let ?s' = "?s\<lparr>scale := 1/4, growth_tracker := 5, hysteresis_tracker := - 7\<rparr>"
  have lt: "(1/4::real) < min_scale ?s" by simp
  have ng: "\<forall>k\<in>{1..3::nat}. (5::int) + int k \<noteq> growth_interval ?s" by auto
  from load_state_dict_no_validation [of ?s "1/4" 5 "- 7"]
  have l: "load_state_dict ?s [''scale'' \<mapsto> Tensor (1/4), ''growth_tracker'' \<mapsto> PyInt 5,
                               ''hysteresis_tracker'' \<mapsto> PyInt (- 7)] = Inr ?s'"
    and r: "\<And>n. (\<forall>k\<in>{1..n}. (5::int) + int k \<noteq> growth_interval ?s) \<Longrightarrow>
                scale (updates ?s' (replicate n False)) = 1/4
              \<and> scale (updates ?s' (replicate n False)) < min_scale (updates ?s' (replicate n False))"
    using lt by blast+
  from r [OF ng] l show ?thesis by simp
qed

section \<open>Properties of the data-parallel coordinator\<close>

lemma stream_ops_simps [simp]:
  "stream_ops c DpCommStream = dp_comm_stream c"
  "stream_ops c TorchOptimCompStream = torch_optim_comp_stream c"
  by (simp_all add: stream_ops_def)

lemma tick_keeps_order:
  assumes "w < length (torch_optim_comp_stream c)"
    and "torch_optim_comp_stream c ! w = WaitEvent ev (Some (DpCommStream, r))"
    and "w < done TorchOptimCompStream \<longrightarrow> r < done DpCommStream"
  shows "w < tick c st done TorchOptimCompStream \<longrightarrow> r < tick c st done DpCommStream"
proof (cases st)
  case DpCommStream
  then show ?thesis using assms(3) by (auto simp: tick_def)
next
  case TorchOptimCompStream
  show ?thesis
  proof (cases "done TorchOptimCompStream = w")
    case True
    then show ?thesis
      using assms(2) TorchOptimCompStream by (auto simp: tick_def runnable_def)
  next
    case False
    then show ?thesis
      using assms(3) TorchOptimCompStream by (auto simp: tick_def)
  qed
qed

lemma run_keeps_order:
  assumes "w < length (torch_optim_comp_stream c)"
    and "torch_optim_comp_stream c ! w = WaitEvent ev (Some (DpCommStream, r))"
    and "w < done TorchOptimCompStream \<longrightarrow> r < done DpCommStream"
  shows "w < run c schedule done TorchOptimCompStream \<longrightarrow> r < run c schedule done DpCommStream"
  using assms(3)
proof (induction schedule arbitrary: "done")
  case Nil
  then show ?case by simp
next
  case (Cons st schedule)
  have "w < tick c st done TorchOptimCompStream \<longrightarrow> r < tick c st done DpCommStream"
    using assms(1,2) Cons.prems by (rule tick_keeps_order)
  then show ?case
    using Cons.IH [of "tick c st done"] by simp
qed

lemma comm_appended_refl: "comm_appended s s"
  by (simp add: comm_appended_def)

lemma comm_appended_trans: "comm_appended s t \<Longrightarrow> comm_appended t u \<Longrightarrow> comm_appended s u"
  by (auto simp: comm_appended_def)

lemma comm_appended_enqueue: "comm_appended s (enqueue DpCommStream x s)"
  by (simp add: comm_appended_def enqueue_def)

lemma comm_appended_record: "comm_appended s (record_event DpCommStream ev s)"
  by (simp add: comm_appended_def record_event_def enqueue_def)

lemma comm_appended_wait: "comm_appended s (wait_event DpCommStream ev s)"
  by (simp add: wait_event_def comm_appended_enqueue)

lemma comm_appended_start:
  "profile_mark_allreduce_start s name = Inr s' \<Longrightarrow> comm_appended s s'"
  by (auto simp: profile_mark_allreduce_start_def comm_appended_refl comm_appended_record
      split: if_splits option.splits)

lemma comm_appended_end:
  "profile_mark_allreduce_end s name = Inr s' \<Longrightarrow> comm_appended s s'"
  by (auto simp: profile_mark_allreduce_end_def comm_appended_refl comm_appended_record
      split: if_splits option.splits)

lemma comm_appended_named:
  "allreduce_named_parameters ps s = Inr s' \<Longrightarrow> comm_appended s s'"
proof (induction ps s rule: allreduce_named_parameters.induct)
  case (1 s)
  then show ?case by (simp add: comm_appended_refl)
next
  case (2 name para rest s)
  show ?case
  proof (cases "has_grad para")
    case False
    then show ?thesis using 2 by simp
  next
    case True
    from "2.prems" True obtain s1 s2 where
      s1: "profile_mark_allreduce_start s (Some name) = Inr s1" and
      s2: "profile_mark_allreduce_end (enqueue DpCommStream (AllReduce (ParaGrad name)) s1) (Some name) = Inr s2" and
      r: "allreduce_named_parameters rest s2 = Inr s'"
      by (auto split: sum.splits)
    have "comm_appended s s1" using s1 by (rule comm_appended_start)
    moreover have "comm_appended s1 (enqueue DpCommStream (AllReduce (ParaGrad name)) s1)"
      by (rule comm_appended_enqueue)
    moreover have "comm_appended (enqueue DpCommStream (AllReduce (ParaGrad name)) s1) s2"
      using s2 by (rule comm_appended_end)
    moreover have "comm_appended s2 s'"
      using "2.IH"(2) [OF _ s1 s2 r] True by simp
    ultimately show ?thesis by (blast intro: comm_appended_trans)
  qed
qed

lemma allreduce_gradients_body:
  assumes "allreduce_gradients s = Inr s'"
  shows "\<exists>s2. comm_appended s s2 \<and> s' = record_event DpCommStream AllreduceGradReadyEvent s2"
proof -
  let ?s0 = "wait_event DpCommStream BackwardReadyEvent s"
  from assms obtain s2 where
    body: "(if flatten ?s0 then
              (case profile_mark_allreduce_start ?s0 None of
                 Inl e \<Rightarrow> Inl e
               | Inr s1 \<Rightarrow>
                   (case flatten_para s1 of
                      None \<Rightarrow> Inl AttributeError
                    | Some _ \<Rightarrow>
                        profile_mark_allreduce_end
                          (enqueue DpCommStream (AllReduce FlattenParaGrad) s1) None))
            else allreduce_named_parameters (module ?s0) ?s0) = Inr s2"
    and s': "s' = record_event DpCommStream AllreduceGradReadyEvent s2"
    by (auto simp: allreduce_gradients_def Let_def split: sum.splits)
  have "comm_appended ?s0 s2"
  proof (cases "flatten ?s0")
    case True
    with body obtain s1 where
      s1: "profile_mark_allreduce_start ?s0 None = Inr s1" and
      e: "profile_mark_allreduce_end (enqueue DpCommStream (AllReduce FlattenParaGrad) s1) None = Inr s2"
      by (auto split: sum.splits option.splits)
    show ?thesis
      using comm_appended_start [OF s1] comm_appended_enqueue [of s1 "AllReduce FlattenParaGrad"]
        comm_appended_end [OF e]
      by (blast intro: comm_appended_trans)
  next
    case False
    with body show ?thesis by (simp add: comm_appended_named)
  qed
  with comm_appended_wait [of s BackwardReadyEvent]
  have "comm_appended s s2" by (rule comm_appended_trans)
  then show ?thesis using s' by blast
qed

lemma allreduce_gradients_comm_appended:
  assumes "allreduce_gradients s = Inr s'"
  shows "comm_appended s s'"
proof -
  from allreduce_gradients_body [OF assms] obtain s2 where
    a: "comm_appended s s2" and s': "s' = record_event DpCommStream AllreduceGradReadyEvent s2"
    by blast
  show ?thesis
    unfolding s' using a comm_appended_record [of s2 AllreduceGradReadyEvent]
    by (rule comm_appended_trans)
qed

lemma allreduce_gradients_effect:
  assumes "allreduce_gradients s = Inr s'"
  shows "torch_optim_comp_stream s' = torch_optim_comp_stream s"
    and "enable_tidy_profiling s' = enable_tidy_profiling s"
    and "optimizer_step_start_event s' = optimizer_step_start_event s"
    and "\<exists>r. last_record s' AllreduceGradReadyEvent = Some (DpCommStream, r) \<and>
             length (dp_comm_stream s') = Suc r \<and> length (dp_comm_stream s) \<le> r \<and>
             dp_comm_stream s' ! r = RecordEvent AllreduceGradReadyEvent"
proof -
  from allreduce_gradients_body [OF assms] obtain s2 where
    a: "comm_appended s s2" and s': "s' = record_event DpCommStream AllreduceGradReadyEvent s2"
    by blast
  have b: "length (dp_comm_stream s) \<le> length (dp_comm_stream s2)"
    using a by (auto simp: comm_appended_def)
  show "torch_optim_comp_stream s' = torch_optim_comp_stream s"
    and "enable_tidy_profiling s' = enable_tidy_profiling s"
    and "optimizer_step_start_event s' = optimizer_step_start_event s"
    using a by (simp_all add: s' comm_appended_def record_event_def enqueue_def)
  show "\<exists>r. last_record s' AllreduceGradReadyEvent = Some (DpCommStream, r) \<and>
             length (dp_comm_stream s') = Suc r \<and> length (dp_comm_stream s) \<le> r \<and>
             dp_comm_stream s' ! r = RecordEvent AllreduceGradReadyEvent"
    using b by (simp add: s' record_event_def enqueue_def)
qed

lemma optimizer_step_effect:
  assumes "optimizer_step s = Inr s'"
  shows "\<exists>r mark. length (dp_comm_stream s') = Suc r \<and>
           dp_comm_stream s' ! r = RecordEvent AllreduceGradReadyEvent \<and>
           torch_optim_comp_stream s' =
             torch_optim_comp_stream s @
               [WaitEvent AllreduceGradReadyEvent (Some (DpCommStream, r))] @ mark @
               [OptimizerStep, RecordEvent OptimizerStepReadyEvent] \<and>
           mark = (if enable_tidy_profiling s
                   then [RecordEvent (the (optimizer_step_start_event s))] else [])"
proof -
  from assms obtain s1 s2 where
    s1: "allreduce_gradients s = Inr s1" and
    s2: "profile_mark_optimizer_step_start
           (wait_event TorchOptimCompStream AllreduceGradReadyEvent s1) = Inr s2" and
    s': "s' = record_event TorchOptimCompStream OptimizerStepReadyEvent
                (enqueue TorchOptimCompStream OptimizerStep s2)"
    by (auto simp: optimizer_step_def split: sum.splits)
  from allreduce_gradients_effect [OF s1] obtain r where
    comp: "torch_optim_comp_stream s1 = torch_optim_comp_stream s" and
    en: "enable_tidy_profiling s1 = enable_tidy_profiling s" and
    ev: "optimizer_step_start_event s1 = optimizer_step_start_event s" and
    r: "last_record s1 AllreduceGradReadyEvent = Some (DpCommStream, r)"
       "length (dp_comm_stream s1) = Suc r"
       "dp_comm_stream s1 ! r = RecordEvent AllreduceGradReadyEvent"
    by blast
  show ?thesis
    using s2 comp en ev r
    by (auto simp: s' profile_mark_optimizer_step_start_def wait_event_def record_event_def
        enqueue_def split: if_splits option.splits)
qed

text \<open>
  \<^verbatim>\<open>optimizer_step\<close> does not raise on an object built by the constructor, nor after any
  number of earlier steps: the attributes it reads are set and stay set.
\<close>

lemma init_attributes_set:
  "AllReduceDP_init a default_stream m (Some optimizer) flatten' = Inr c \<Longrightarrow> attributes_set c"
  by (auto simp: AllReduceDP_init_def attributes_set_def Let_def)

lemma comm_appended_attributes_set:
  "comm_appended s s' \<Longrightarrow> attributes_set s \<Longrightarrow> attributes_set s'"
  by (simp add: comm_appended_def attributes_set_def)

lemma named_parameters_succeed:
  assumes "enable_tidy_profiling s \<longrightarrow>
             (\<exists>starts ends.
                allreduce_gradients_start_events s = Some starts \<and>
                allreduce_gradients_end_events s = Some ends \<and>
                (\<forall>n\<in>fst ` set ps. starts n \<noteq> None \<and> ends n \<noteq> None))"
  shows "\<exists>s'. allreduce_named_parameters ps s = Inr s'"
  using assms
proof (induction ps s rule: allreduce_named_parameters.induct)
  case (1 s)
  then show ?case by simp
next
  case (2 name para rest s)
  show ?case
  proof (cases "has_grad para")
    case False
    then show ?thesis using 2 by auto
  next
    case True
    let ?t = "enqueue DpCommStream (AllReduce (ParaGrad name))"
    have "\<exists>s1. profile_mark_allreduce_start s (Some name) = Inr s1"
      using "2.prems" by (cases "enable_tidy_profiling s") (auto simp: profile_mark_allreduce_start_def)
    then obtain s1 where s1: "profile_mark_allreduce_start s (Some name) = Inr s1" ..
    have a1: "comm_appended s (?t s1)"
      using comm_appended_start [OF s1] comm_appended_enqueue [of s1]
      by (blast intro: comm_appended_trans)
    have "\<exists>s2. profile_mark_allreduce_end (?t s1) (Some name) = Inr s2"
      using "2.prems" a1
      by (cases "enable_tidy_profiling s") (auto simp: profile_mark_allreduce_end_def comm_appended_def)
    then obtain s2 where s2: "profile_mark_allreduce_end (?t s1) (Some name) = Inr s2" ..
    have a2: "comm_appended s s2"
      using a1 comm_appended_end [OF s2] by (rule comm_appended_trans)
    have "\<exists>s'. allreduce_named_parameters rest s2 = Inr s'"
      using "2.IH"(2) [OF _ s1 s2] True "2.prems" a2 by (auto simp: comm_appended_def)
    then show ?thesis using True s1 s2 by simp
  qed
qed

lemma allreduce_gradients_succeeds:
  assumes "attributes_set s"
  shows "\<exists>s'. allreduce_gradients s = Inr s'"
proof -
  let ?s0 = "wait_event DpCommStream BackwardReadyEvent s"
  have w: "comm_appended s ?s0" by (rule comm_appended_wait)
  then have a0: "attributes_set ?s0" using assms by (rule comm_appended_attributes_set)
  show ?thesis
  proof (cases "flatten ?s0")
    case True
    have "\<exists>s1. profile_mark_allreduce_start ?s0 None = Inr s1"
      using a0 True
      by (cases "enable_tidy_profiling ?s0") (auto simp: profile_mark_allreduce_start_def attributes_set_def)
    then obtain s1 where s1: "profile_mark_allreduce_start ?s0 None = Inr s1" ..
    have "flatten_para s1 \<noteq> None"
      using comm_appended_start [OF s1] a0 True by (auto simp: comm_appended_def attributes_set_def)
    then show ?thesis
      using True s1
      by (auto simp: allreduce_gradients_def Let_def profile_mark_allreduce_end_def)
  next
    case False
    have "\<exists>s2. allreduce_named_parameters (module ?s0) ?s0 = Inr s2"
      by (rule named_parameters_succeed) (use a0 False in \<open>auto simp: attributes_set_def\<close>)
    then show ?thesis
      using False by (auto simp: allreduce_gradients_def Let_def)
  qed
qed

lemma optimizer_step_succeeds:
  assumes "attributes_set s"
  shows "\<exists>s'. optimizer_step s = Inr s' \<and> attributes_set s'"
proof -
  obtain s1 where s1: "allreduce_gradients s = Inr s1"
    using allreduce_gradients_succeeds [OF assms] by blast
  have a1: "attributes_set s1"
    using allreduce_gradients_comm_appended [OF s1] assms by (rule comm_appended_attributes_set)
  let ?s2 = "wait_event TorchOptimCompStream AllreduceGradReadyEvent s1"
  have a2: "attributes_set ?s2"
    using a1 by (simp add: attributes_set_def wait_event_def enqueue_def)
  show ?thesis
  proof (cases "enable_tidy_profiling s1")
    case False
    then show ?thesis
      using s1 a1
      by (simp add: optimizer_step_def profile_mark_optimizer_step_start_def wait_event_def
          enqueue_def record_event_def attributes_set_def)
  next
    case True
    then obtain ev where "optimizer_step_start_event s1 = Some ev"
      using a1 by (auto simp: attributes_set_def)
    then show ?thesis
      using s1 a1 True
      by (simp add: optimizer_step_def profile_mark_optimizer_step_start_def wait_event_def
          enqueue_def record_event_def attributes_set_def)
  qed
qed

lemma named_parameters_reductions:
  "allreduce_named_parameters ps s = Inr s' \<Longrightarrow>
     \<exists>ops. dp_comm_stream s' = dp_comm_stream s @ ops \<and>
           (\<forall>(n, p)\<in>set ps. has_grad p \<longrightarrow> AllReduce (ParaGrad n) \<in> set ops)"
proof (induction ps s rule: allreduce_named_parameters.induct)
  case (1 s)
  then show ?case by simp
next
  case (2 name para rest s)
  show ?case
  proof (cases "has_grad para")
    case False
    then show ?thesis using 2 by auto
  next
    case True
    let ?t = "enqueue DpCommStream (AllReduce (ParaGrad name))"
    from "2.prems" True obtain s1 s2 where
      s1: "profile_mark_allreduce_start s (Some name) = Inr s1" and
      s2: "profile_mark_allreduce_end (?t s1) (Some name) = Inr s2" and
      r: "allreduce_named_parameters rest s2 = Inr s'"
      by (auto split: sum.splits)
    from comm_appended_start [OF s1] obtain o1 where
      o1: "dp_comm_stream s1 = dp_comm_stream s @ o1"
      by (auto simp: comm_appended_def)
    from comm_appended_end [OF s2] obtain o2 where
      o2: "dp_comm_stream s2 = dp_comm_stream (?t s1) @ o2"
      by (auto simp: comm_appended_def)
    from "2.IH"(2) [OF _ s1 s2 r] True obtain o3 where
      o3: "dp_comm_stream s' = dp_comm_stream s2 @ o3"
        "\<forall>(n, p)\<in>set rest. has_grad p \<longrightarrow> AllReduce (ParaGrad n) \<in> set o3"
      by auto
    have "dp_comm_stream s' = dp_comm_stream s @ (o1 @ [AllReduce (ParaGrad name)] @ o2 @ o3)"
      using o1 o2 o3(1) by (simp add: enqueue_def)
    moreover have "\<forall>(n, p)\<in>set ((name, para) # rest). has_grad p \<longrightarrow>
        AllReduce (ParaGrad n) \<in> set (o1 @ [AllReduce (ParaGrad name)] @ o2 @ o3)"
      using o3(2) by auto
    ultimately show ?thesis by blast
  qed
qed

lemma allreduce_gradients_reductions:
  assumes "allreduce_gradients s = Inr s'"
  shows "\<exists>ops. dp_comm_stream s' = dp_comm_stream s @ ops \<and>
           (flatten s \<longrightarrow> AllReduce FlattenParaGrad \<in> set ops) \<and>
           (\<not> flatten s \<longrightarrow>
              (\<forall>(n, p)\<in>set (module s). has_grad p \<longrightarrow> AllReduce (ParaGrad n) \<in> set ops))"
proof -
  let ?s0 = "wait_event DpCommStream BackwardReadyEvent s"
  have s0: "dp_comm_stream ?s0 =
              dp_comm_stream s @ [WaitEvent BackwardReadyEvent (last_record s BackwardReadyEvent)]"
    "flatten ?s0 = flatten s" "module ?s0 = module s"
    by (simp_all add: wait_event_def enqueue_def)
  from assms obtain s2 where
    body: "(if flatten ?s0 then
              (case profile_mark_allreduce_start ?s0 None of
                 Inl e \<Rightarrow> Inl e
               | Inr s1 \<Rightarrow>
                   (case flatten_para s1 of
                      None \<Rightarrow> Inl AttributeError
                    | Some _ \<Rightarrow>
                        profile_mark_allreduce_end
                          (enqueue DpCommStream (AllReduce FlattenParaGrad) s1) None))
            else allreduce_named_parameters (module ?s0) ?s0) = Inr s2"
    and s': "s' = record_event DpCommStream AllreduceGradReadyEvent s2"
    by (auto simp: allreduce_gradients_def Let_def split: sum.splits)
  have last: "dp_comm_stream s' = dp_comm_stream s2 @ [RecordEvent AllreduceGradReadyEvent]"
    by (simp add: s' record_event_def enqueue_def)
  show ?thesis
  proof (cases "flatten s")
    case True
    with body s0 obtain s1 where
      s1: "profile_mark_allreduce_start ?s0 None = Inr s1" and
      e: "profile_mark_allreduce_end (enqueue DpCommStream (AllReduce FlattenParaGrad) s1) None = Inr s2"
      by (auto split: sum.splits option.splits)
    from comm_appended_start [OF s1] obtain o1 where
      o1: "dp_comm_stream s1 = dp_comm_stream ?s0 @ o1"
      by (auto simp: comm_appended_def)
    from e have "s2 = enqueue DpCommStream (AllReduce FlattenParaGrad) s1"
      by (simp add: profile_mark_allreduce_end_def)
    then have "dp_comm_stream s' = dp_comm_stream s @
        ([WaitEvent BackwardReadyEvent (last_record s BackwardReadyEvent)] @ o1 @
         [AllReduce FlattenParaGrad, RecordEvent AllreduceGradReadyEvent])"
      using last o1 s0(1) by (simp add: enqueue_def)
    then show ?thesis using True by force
  next
    case False
    with body s0 have "allreduce_named_parameters (module s) ?s0 = Inr s2" by simp
    from named_parameters_reductions [OF this] obtain ops where
      ops: "dp_comm_stream s2 = dp_comm_stream ?s0 @ ops"
        "\<forall>(n, p)\<in>set (module s). has_grad p \<longrightarrow> AllReduce (ParaGrad n) \<in> set ops"
      by blast
    have "dp_comm_stream s' = dp_comm_stream s @
        ([WaitEvent BackwardReadyEvent (last_record s BackwardReadyEvent)] @ ops @
         [RecordEvent AllreduceGradReadyEvent])"
      using last ops(1) s0(1) by simp
    moreover have "\<forall>(n, p)\<in>set (module s). has_grad p \<longrightarrow> AllReduce (ParaGrad n) \<in>
        set ([WaitEvent BackwardReadyEvent (last_record s BackwardReadyEvent)] @ ops @
         [RecordEvent AllreduceGradReadyEvent])"
      using ops(2) by auto
    ultimately show ?thesis using False by blast
  qed
qed

lemma optimizer_step_comm:
  assumes "optimizer_step s = Inr s'"
  shows "\<exists>s1. allreduce_gradients s = Inr s1 \<and> dp_comm_stream s' = dp_comm_stream s1"
  using assms
  by (auto simp: optimizer_step_def profile_mark_optimizer_step_start_def wait_event_def
      record_event_def enqueue_def split: sum.splits if_splits option.splits)

text \<open>
  Claim C7.  After a successful \<^verbatim>\<open>optimizer_step\<close>, the optimizer update is operation
  number \<open>j\<close> of the compute stream, after the wait (and, when profiling, the start
  marker); the wait refers to the record of \<^verbatim>\<open>allreduce_grad_ready_event\<close>, which is the
  last operation of the communication stream; and in every interleaving of the two streams: once the compute stream has
  completed the \<open>j\<close> operations before the update, so that the update can begin, the
  communication stream has completed all its operations, among them every reduction
  issued for this step and the record of \<^verbatim>\<open>allreduce_grad_ready_event\<close> after the last of
  them.  The reductions issued for the step are the one of the flattened gradient, or
  one for each named parameter that has a gradient.
\<close>

theorem optimizer_step_after_reductions:
  assumes "optimizer_step self = Inr self'"
  shows "(let j = length (torch_optim_comp_stream self) +
                    (if enable_tidy_profiling self then 2 else 1)
          in j < length (torch_optim_comp_stream self') \<and>
             torch_optim_comp_stream self' ! j = OptimizerStep \<and>
             torch_optim_comp_stream self' ! length (torch_optim_comp_stream self) =
               WaitEvent AllreduceGradReadyEvent
                 (Some (DpCommStream, length (dp_comm_stream self') - 1)) \<and>
             last (dp_comm_stream self') = RecordEvent AllreduceGradReadyEvent \<and>
             (\<forall>schedule. j \<le> completed self' schedule TorchOptimCompStream \<longrightarrow>
                  length (dp_comm_stream self') \<le> completed self' schedule DpCommStream))
       \<and> (\<exists>ops. dp_comm_stream self' = dp_comm_stream self @ ops \<and>
             (flatten self \<longrightarrow> AllReduce FlattenParaGrad \<in> set ops) \<and>
             (\<not> flatten self \<longrightarrow>
                (\<forall>(n, p)\<in>set (module self). has_grad p \<longrightarrow> AllReduce (ParaGrad n) \<in> set ops)))"
proof
  let ?w = "length (torch_optim_comp_stream self)"
  let ?j = "?w + (if enable_tidy_profiling self then 2 else 1)"
  from optimizer_step_effect [OF assms] obtain r mark where
    len: "length (dp_comm_stream self') = Suc r" and
    rec: "dp_comm_stream self' ! r = RecordEvent AllreduceGradReadyEvent" and
    comp: "torch_optim_comp_stream self' =
             torch_optim_comp_stream self @
               [WaitEvent AllreduceGradReadyEvent (Some (DpCommStream, r))] @ mark @
               [OptimizerStep, RecordEvent OptimizerStepReadyEvent]" and
    mark: "mark = (if enable_tidy_profiling self
                   then [RecordEvent (the (optimizer_step_start_event self))] else [])"
    by blast
  have w: "?w < length (torch_optim_comp_stream self')"
    "torch_optim_comp_stream self' ! ?w = WaitEvent AllreduceGradReadyEvent (Some (DpCommStream, r))"
    by (simp_all add: comp nth_append)
  have j: "?j < length (torch_optim_comp_stream self')"
    "torch_optim_comp_stream self' ! ?j = OptimizerStep"
    by (simp_all add: comp mark nth_append)
  have order: "length (dp_comm_stream self') \<le> completed self' schedule DpCommStream"
    if "?j \<le> completed self' schedule TorchOptimCompStream" for schedule
  proof -
    have "?w < run self' schedule (\<lambda>st. 0) TorchOptimCompStream \<longrightarrow>
          r < run self' schedule (\<lambda>st. 0) DpCommStream"
      using w by (rule run_keeps_order) simp
    moreover have "?w < run self' schedule (\<lambda>st. 0) TorchOptimCompStream"
      using that by (simp add: completed_def split: if_splits)
    ultimately show ?thesis by (simp add: completed_def len)
  qed
  have wait: "torch_optim_comp_stream self' ! ?w =
      WaitEvent AllreduceGradReadyEvent (Some (DpCommStream, length (dp_comm_stream self') - 1))"
    using w(2) len by simp
  have "dp_comm_stream self' \<noteq> []" using len by auto
  then have lst: "last (dp_comm_stream self') = RecordEvent AllreduceGradReadyEvent"
    using rec len by (simp add: last_conv_nth)
  show "let j = ?j
        in j < length (torch_optim_comp_stream self') \<and>
           torch_optim_comp_stream self' ! j = OptimizerStep \<and>
           torch_optim_comp_stream self' ! length (torch_optim_comp_stream self) =
             WaitEvent AllreduceGradReadyEvent
               (Some (DpCommStream, length (dp_comm_stream self') - 1)) \<and>
           last (dp_comm_stream self') = RecordEvent AllreduceGradReadyEvent \<and>
           (\<forall>schedule. j \<le> completed self' schedule TorchOptimCompStream \<longrightarrow>
                length (dp_comm_stream self') \<le> completed self' schedule DpCommStream)"
    unfolding Let_def using j wait lst order by blast
next
  from optimizer_step_comm [OF assms] obtain s1 where
    "allreduce_gradients self = Inr s1" "dp_comm_stream self' = dp_comm_stream s1"
    by blast
  then show "\<exists>ops. dp_comm_stream self' = dp_comm_stream self @ ops \<and>
             (flatten self \<longrightarrow> AllReduce FlattenParaGrad \<in> set ops) \<and>
             (\<not> flatten self \<longrightarrow>
                (\<forall>(n, p)\<in>set (module self). has_grad p \<longrightarrow> AllReduce (ParaGrad n) \<in> set ops))"
    using allreduce_gradients_reductions [of self s1] by simp
qed

theorem optimizer_step_after_reductions_witness:
  "AllReduceDP_init example_args [] example_module (Some ()) True = Inr example_dp
   \<and> (\<exists>c. optimizer_step example_dp = Inr c
        \<and> torch_optim_comp_stream c ! 2 = OptimizerStep
        \<and> length (dp_comm_stream c) = 4
        \<and> AllReduce FlattenParaGrad \<in> set (dp_comm_stream c)
        \<and> completed c [TorchOptimCompStream, TorchOptimCompStream, TorchOptimCompStream]
              TorchOptimCompStream = 0
        \<and> completed c [TorchOptimCompStream, DpCommStream, DpCommStream, DpCommStream,
              TorchOptimCompStream, DpCommStream, TorchOptimCompStream, TorchOptimCompStream,
              TorchOptimCompStream] TorchOptimCompStream = 3
        \<and> completed c [TorchOptimCompStream, DpCommStream, DpCommStream, DpCommStream,
              TorchOptimCompStream, DpCommStream, TorchOptimCompStream, TorchOptimCompStream,
              TorchOptimCompStream] DpCommStream = 4)"
proof -
  let ?schedule = "[TorchOptimCompStream, DpCommStream, DpCommStream, DpCommStream,
              TorchOptimCompStream, DpCommStream, TorchOptimCompStream, TorchOptimCompStream,
              TorchOptimCompStream]"
  have init: "AllReduceDP_init example_args [] example_module (Some ()) True = Inr example_dp"
    by (simp add: AllReduceDP_init_def example_args_def example_module_def example_dp_def
        flatten_params_def)
  obtain c where step: "optimizer_step example_dp = Inr c"
    by (simp add: optimizer_step_def allreduce_gradients_def profile_mark_allreduce_start_def
        profile_mark_allreduce_end_def profile_mark_optimizer_step_start_def wait_event_def
        record_event_def enqueue_def stream_ops_def example_dp_def Let_def)
  have comp: "torch_optim_comp_stream c =
      [WaitEvent AllreduceGradReadyEvent (Some (DpCommStream, 3)),
       RecordEvent OptimizerStepStartEvent, OptimizerStep, RecordEvent OptimizerStepReadyEvent]"
    and comm: "dp_comm_stream c =
      [WaitEvent BackwardReadyEvent None, RecordEvent AllreduceGradientsStartEvent,
       AllReduce FlattenParaGrad, RecordEvent AllreduceGradReadyEvent]"
    using step
    by (auto simp: optimizer_step_def allreduce_gradients_def profile_mark_allreduce_start_def
        profile_mark_allreduce_end_def profile_mark_optimizer_step_start_def wait_event_def
        record_event_def enqueue_def stream_ops_def example_dp_def Let_def)
  have en: "enable_tidy_profiling example_dp" "torch_optim_comp_stream example_dp = []"
    by (simp_all add: example_dp_def)
  have blocked: "completed c [TorchOptimCompStream, TorchOptimCompStream, TorchOptimCompStream]
              TorchOptimCompStream = 0"
    by (simp add: completed_def tick_def runnable_def stream_ops_def comp comm)
  have reached: "completed c ?schedule TorchOptimCompStream = 3"
    by (simp add: completed_def tick_def runnable_def stream_ops_def comp comm)
  from optimizer_step_after_reductions [OF step] en
  have "torch_optim_comp_stream c ! 2 = OptimizerStep"
    and "2 \<le> completed c ?schedule TorchOptimCompStream \<longrightarrow>
           length (dp_comm_stream c) \<le> completed c ?schedule DpCommStream"
    by (simp_all add: Let_def numeral_2_eq_2)
  moreover have "completed c ?schedule DpCommStream \<le> 4"
    by (simp add: completed_def tick_def runnable_def stream_ops_def comp comm)
  ultimately show ?thesis
    using init step blocked reached comm by auto
qed

lemma flattened_allreduce_gradients_ops:
  assumes "flatten s" "allreduce_gradients s = Inr s'"
  shows "(enable_tidy_profiling s \<longrightarrow>
            (\<exists>start. allreduce_gradients_start_event s = Some start \<and>
               dp_comm_stream s' = dp_comm_stream s @
                 [WaitEvent BackwardReadyEvent (last_record s BackwardReadyEvent),
                  RecordEvent start, AllReduce FlattenParaGrad,
                  RecordEvent AllreduceGradReadyEvent]))
       \<and> (\<not> enable_tidy_profiling s \<longrightarrow>
            dp_comm_stream s' = dp_comm_stream s @
              [WaitEvent BackwardReadyEvent (last_record s BackwardReadyEvent),
               AllReduce FlattenParaGrad, RecordEvent AllreduceGradReadyEvent])"
  using assms
  by (auto simp: allreduce_gradients_def profile_mark_allreduce_start_def
      profile_mark_allreduce_end_def wait_event_def record_event_def enqueue_def Let_def
      split: sum.splits option.splits if_splits)

lemma flattened_profiling_dur:
  assumes "flatten s" "profiling_data_parallel et s ts ev = Inr (s', logs)"
  shows "\<exists>start d. allreduce_gradients_start_event s = Some start \<and>
           et start AllreduceGradReadyEvent = Inr d \<and>
           length logs = 2 \<and> log_name (hd logs) = ''opt_allreduce'' \<and>
           log_dur (hd logs) = d * 1000"
  using assms
  by (auto simp: profiling_data_parallel_def set_time_stamp_def allreduce_log_def Let_def
      split: sum.splits option.splits if_splits)

text \<open>
  Claim C10.  \<^verbatim>\<open>profile_mark_allreduce_end\<close> called with no name (or with the empty
  name) records nothing.  An
  object constructed in flattened mode has no dictionary of end events, and what
  \<^verbatim>\<open>_allreduce_gradients\<close> issues in flattened mode is the wait, the start marker (when
  profiling), the reduction and the record of \<^verbatim>\<open>allreduce_grad_ready_event\<close>: no end
  marker.  The duration of the flattened-mode trace record is the elapsed time from the
  start event to \<^verbatim>\<open>allreduce_grad_ready_event\<close> (times 1000).
\<close>

theorem flattened_mode_records_no_end_marker:
  "profile_mark_allreduce_end self None = Inr self
   \<and> profile_mark_allreduce_end self (Some []) = Inr self
   \<and> (\<forall>a default_stream m optimizer self0.
         AllReduceDP_init a default_stream m (Some optimizer) True = Inr self0 \<longrightarrow>
           flatten self0 \<and> allreduce_gradients_end_events self0 = None)
   \<and> (flatten self \<longrightarrow>
        (\<forall>self'. allreduce_gradients self = Inr self' \<longrightarrow>
           (enable_tidy_profiling self \<longrightarrow>
              (\<exists>start. allreduce_gradients_start_event self = Some start \<and>
                 dp_comm_stream self' = dp_comm_stream self @
                   [WaitEvent BackwardReadyEvent (last_record self BackwardReadyEvent),
                    RecordEvent start, AllReduce FlattenParaGrad,
                    RecordEvent AllreduceGradReadyEvent]))
         \<and> (\<not> enable_tidy_profiling self \<longrightarrow>
              dp_comm_stream self' = dp_comm_stream self @
                [WaitEvent BackwardReadyEvent (last_record self BackwardReadyEvent),
                 AllReduce FlattenParaGrad, RecordEvent AllreduceGradReadyEvent])))
   \<and> (flatten self \<longrightarrow>
        (\<forall>elapsed_time ts ev self' logs.
           profiling_data_parallel elapsed_time self ts ev = Inr (self', logs) \<longrightarrow>
             (\<exists>start d. allreduce_gradients_start_event self = Some start \<and>
                elapsed_time start AllreduceGradReadyEvent = Inr d \<and>
                length logs = 2 \<and> log_name (hd logs) = ''opt_allreduce'' \<and>
                log_dur (hd logs) = d * 1000)))"
proof (intro conjI allI impI)
  show "profile_mark_allreduce_end self None = Inr self"
    and "profile_mark_allreduce_end self (Some []) = Inr self"
    by (simp_all add: profile_mark_allreduce_end_def)
next
  fix a default_stream m and optimizer :: 'b and self0
  assume "AllReduceDP_init a default_stream m (Some optimizer) True = Inr self0"
  then show "flatten self0" "allreduce_gradients_end_events self0 = None"
    by (auto simp: AllReduceDP_init_def Let_def)
next
  fix self'
  assume "flatten self" "allreduce_gradients self = Inr self'"
  note ops = flattened_allreduce_gradients_ops [OF this]
  {
    assume "enable_tidy_profiling self"
    with ops show "\<exists>start. allreduce_gradients_start_event self = Some start \<and>
                 dp_comm_stream self' = dp_comm_stream self @
                   [WaitEvent BackwardReadyEvent (last_record self BackwardReadyEvent),
                    RecordEvent start, AllReduce FlattenParaGrad,
                    RecordEvent AllreduceGradReadyEvent]"
      by blast
  }
  {
    assume "\<not> enable_tidy_profiling self"
    with ops show "dp_comm_stream self' = dp_comm_stream self @
                [WaitEvent BackwardReadyEvent (last_record self BackwardReadyEvent),
                 AllReduce FlattenParaGrad, RecordEvent AllreduceGradReadyEvent]"
      by blast
  }
next
  fix elapsed_time ts ev self' logs
  assume "flatten self" "profiling_data_parallel elapsed_time self ts ev = Inr (self', logs)"
  then show "\<exists>start d. allreduce_gradients_start_event self = Some start \<and>
                elapsed_time start AllreduceGradReadyEvent = Inr d \<and>
                length logs = 2 \<and> log_name (hd logs) = ''opt_allreduce'' \<and>
                log_dur (hd logs) = d * 1000"
    by (rule flattened_profiling_dur)
qed

theorem flattened_mode_records_no_end_marker_witness:
  "profile_mark_allreduce_end example_dp None = Inr example_dp
   \<and> allreduce_gradients_end_events example_dp = None
   \<and> (\<exists>c. allreduce_gradients example_dp = Inr c
        \<and> dp_comm_stream c =
            [WaitEvent BackwardReadyEvent None, RecordEvent AllreduceGradientsStartEvent,
             AllReduce FlattenParaGrad, RecordEvent AllreduceGradReadyEvent])
   \<and> (\<exists>c logs. profiling_data_parallel
                   (\<lambda>a b. if b = AllreduceGradReadyEvent then Inr 2 else Inr 3)
                   example_dp 5 (OtherEvent 0) = Inr (c, logs)
        \<and> log_dur (hd logs) = 2000)"
proof -
  let ?et = "\<lambda>(a::event) (b::event). if b = AllreduceGradReadyEvent then Inr 2 else (Inr 3 :: error + real)"
  note inst = flattened_mode_records_no_end_marker [of example_dp]
  have fl: "flatten example_dp" "enable_tidy_profiling example_dp"
    "allreduce_gradients_start_event example_dp = Some AllreduceGradientsStartEvent"
    "dp_comm_stream example_dp = []" "last_record example_dp BackwardReadyEvent = None"
    by (simp_all add: example_dp_def)
  have init: "AllReduceDP_init example_args [] example_module (Some ()) True = Inr example_dp"
    by (simp add: AllReduceDP_init_def example_args_def example_module_def example_dp_def
        flatten_params_def)
  have a: "profile_mark_allreduce_end example_dp None = Inr example_dp"
    using inst by (rule conjunct1)
  have b: "allreduce_gradients_end_events example_dp = None"
    using inst [THEN conjunct2, THEN conjunct2, THEN conjunct1, rule_format, OF init] by (rule conjunct2)
  obtain c where c: "allreduce_gradients example_dp = Inr c"
    by (simp add: allreduce_gradients_def profile_mark_allreduce_start_def
        profile_mark_allreduce_end_def wait_event_def record_event_def enqueue_def
        stream_ops_def example_dp_def Let_def)
  have c': "dp_comm_stream c =
            [WaitEvent BackwardReadyEvent None, RecordEvent AllreduceGradientsStartEvent,
             AllReduce FlattenParaGrad, RecordEvent AllreduceGradReadyEvent]"
    using inst [THEN conjunct2, THEN conjunct2, THEN conjunct2, THEN conjunct1, rule_format, OF fl(1) c,
        THEN conjunct1, rule_format, OF fl(2)] fl
    by simp
  obtain d logs where p: "profiling_data_parallel ?et example_dp 5 (OtherEvent 0) = Inr (d, logs)"
    by (simp add: profiling_data_parallel_def set_time_stamp_def get_ts_def example_dp_def
        Let_def)
  have "log_dur (hd logs) = 2000"
    using inst [THEN conjunct2, THEN conjunct2, THEN conjunct2, THEN conjunct2, rule_format, OF fl(1) p] fl(3)
    by auto
  then show ?thesis using a b c c' p by blast
qed

text \<open>
  Claim C8, as amended.  After \<^verbatim>\<open>set_time_stamp(reference_timestamp, reference)\<close>, for
  every event \<open>x\<close> for which the device reports an elapsed time \<open>d\<close> since the reference
  event, \<^verbatim>\<open>get_ts(x)\<close> is \<open>reference_timestamp + d * 1000\<close>: the elapsed time (in
  milliseconds) is scaled to the unit of the time stamps.  The claim without the
  factor fails, as the counterexample after the witness shows.
\<close>

theorem get_ts_scales_elapsed_time:
  assumes "elapsed_time reference x = Inr d"
  shows "get_ts elapsed_time (set_time_stamp self reference_timestamp reference) x =
           Inr (reference_timestamp + d * 1000)"
  using assms by (simp add: get_ts_def set_time_stamp_def)

theorem get_ts_scales_elapsed_time_witness:
  "get_ts (\<lambda>reference x. Inr 1) (set_time_stamp example_dp 0 (OtherEvent 0))
      AllreduceGradReadyEvent = Inr 1000"
proof -
  have "(\<lambda>reference x. Inr 1 :: error + real) (OtherEvent 0) AllreduceGradReadyEvent = Inr 1"
    by simp
  from get_ts_scales_elapsed_time [of "\<lambda>reference x. Inr 1", OF this, of example_dp 0]
  show ?thesis by simp
qed

theorem get_ts_unscaled_counterexample:
  "get_ts (\<lambda>reference x. Inr 1) (set_time_stamp example_dp 0 (OtherEvent 0))
      AllreduceGradReadyEvent \<noteq> Inr (0 + 1)"
  by (simp add: get_ts_def set_time_stamp_def)

text \<open>
  For arguments in a linear order (ordinary numbers, no NaN), and when no tensor creation
  raises, the constructor raises exactly on the violations \<open>initial_scale \<le> 0\<close>,
  \<open>min_scale \<le> 0\<close>, \<open>min_scale > initial_scale\<close>, \<open>growth_factor \<le> 1\<close>, \<open>backoff_factor\<close>
  outside the open interval from 0 to 1, \<open>growth_interval \<le> 0\<close>, \<open>hysteresis \<le> 0\<close>.
\<close>

lemma construction_preconditions_ordinary_numbers:
  fixes initial_scale :: "'p::{zero,one,linorder}"
  shows "DynamicGradScaler_init (\<lambda>x. Inr (convert x)) initial_scale min_scale' growth_factor'
               backoff_factor' growth_interval' hysteresis' = Inl AssertionError \<longleftrightarrow>
         (initial_scale \<le> 0 \<or> min_scale' \<le> 0 \<or> initial_scale < min_scale'
           \<or> growth_factor' \<le> 1 \<or> backoff_factor' \<le> 0 \<or> 1 \<le> backoff_factor'
           \<or> growth_interval' \<le> 0 \<or> hysteresis' \<le> 0)"
  by (auto simp: DynamicGradScaler_init_def GradScaler_init_def not_less not_le)

text \<open>
  Claim C6, as amended.  \<^verbatim>\<open>DynamicGradScaler.__init__\<close> returns a scaler if and only if
  every one of its assertions holds (\<open>initial_scale > 0\<close>, \<open>min_scale > 0\<close>,
  \<open>min_scale \<le> initial_scale\<close>, \<open>growth_factor > 1\<close>, \<open>0 < backoff_factor < 1\<close>,
  \<open>growth_interval > 0\<close>, \<open>hysteresis > 0\<close>) and each of its four tensors is made; the
  scaler then holds these tensors, the conversions of the arguments to 32-bit floats,
  and the given integers: nothing is defaulted.  When no tensor creation raises, it
  raises \<^verbatim>\<open>AssertionError\<close> exactly when one of the assertions is false.  This holds for
  arguments of any kind and for any conversion.  \<^verbatim>\<open>AllReduceDP.__init__\<close> raises when
  no optimizer is given.  The claim's list of violations is not the whole condition:
  with NaN as \<open>initial_scale\<close> none of them holds and the constructor raises, as the
  counterexample after the witness shows.
\<close>

theorem construction_preconditions:
  fixes initial_scale :: "'p::{zero,one,ord}" and FloatTensor :: "'p \<Rightarrow> error + 'a"
    and convert :: "'p \<Rightarrow> 'a"
  shows "(DynamicGradScaler_init FloatTensor initial_scale min_scale' growth_factor'
             backoff_factor' growth_interval' hysteresis' = Inr s) =
         (0 < initial_scale \<and> 0 < min_scale' \<and> min_scale' \<le> initial_scale
          \<and> 1 < growth_factor' \<and> backoff_factor' < 1 \<and> 0 < backoff_factor'
          \<and> 0 < growth_interval' \<and> 0 < hysteresis'
          \<and> FloatTensor initial_scale = Inr (scale s)
          \<and> FloatTensor min_scale' = Inr (min_scale s)
          \<and> FloatTensor growth_factor' = Inr (growth_factor s)
          \<and> FloatTensor backoff_factor' = Inr (backoff_factor s)
          \<and> growth_interval s = growth_interval' \<and> hysteresis s = hysteresis'
          \<and> growth_tracker s = 0 \<and> hysteresis_tracker s = hysteresis')
       \<and> DynamicGradScaler_init (\<lambda>x. Inr (convert x)) initial_scale min_scale' growth_factor'
             backoff_factor' growth_interval' hysteresis' =
           (if 0 < initial_scale \<and> 0 < min_scale' \<and> min_scale' \<le> initial_scale
               \<and> 1 < growth_factor' \<and> backoff_factor' < 1 \<and> 0 < backoff_factor'
               \<and> 0 < growth_interval' \<and> 0 < hysteresis'
            then Inr \<lparr> scale = convert initial_scale, min_scale = convert min_scale',
                       growth_factor = convert growth_factor',
                       backoff_factor = convert backoff_factor',
                       growth_interval = growth_interval', hysteresis = hysteresis',
                       growth_tracker = 0, hysteresis_tracker = hysteresis' \<rparr>
            else Inl AssertionError)
       \<and> AllReduceDP_init a default_stream m None flatten' = Inl AssertionError"
proof (intro conjI)
  show "(DynamicGradScaler_init FloatTensor initial_scale min_scale' growth_factor'
             backoff_factor' growth_interval' hysteresis' = Inr s) =
         (0 < initial_scale \<and> 0 < min_scale' \<and> min_scale' \<le> initial_scale
          \<and> 1 < growth_factor' \<and> backoff_factor' < 1 \<and> 0 < backoff_factor'
          \<and> 0 < growth_interval' \<and> 0 < hysteresis'
          \<and> FloatTensor initial_scale = Inr (scale s)
          \<and> FloatTensor min_scale' = Inr (min_scale s)
          \<and> FloatTensor growth_factor' = Inr (growth_factor s)
          \<and> FloatTensor backoff_factor' = Inr (backoff_factor s)
          \<and> growth_interval s = growth_interval' \<and> hysteresis s = hysteresis'
          \<and> growth_tracker s = 0 \<and> hysteresis_tracker s = hysteresis')"
    by (rule DynamicGradScaler_init_Inr)
qed (simp_all add: DynamicGradScaler_init_def GradScaler_init_def AllReduceDP_init_def Let_def)

theorem construction_preconditions_witness:
  "DynamicGradScaler_init float32_tensor (Finite 65536) (Finite 1) (Finite 2) (Finite (1/2)) 2 0
     = Inl AssertionError
   \<and> DynamicGradScaler_init float32_tensor (Finite 1) (Finite 2) (Finite 2) (Finite (1/2)) 2 1
     = Inl AssertionError
   \<and> DynamicGradScaler_init float32_tensor (Finite 65536) (Finite 1) (Finite 2)
       (Finite (1 / 2 ^ 160)) 2 1 =
       Inr \<lparr> scale = Finite 65536, min_scale = Finite 1, growth_factor = Finite 2,
             backoff_factor = Finite 0, growth_interval = 2, hysteresis = 1,
             growth_tracker = 0, hysteresis_tracker = 1 \<rparr>
   \<and> DynamicGradScaler_init (\<lambda>x. Inl RuntimeError) (Finite 65536) (Finite 1) (Finite 2)
       (Finite (1/2)) 2 1 = (Inl RuntimeError :: error + float_value dynamic_grad_scaler)
   \<and> AllReduceDP_init example_args [] example_module (None :: unit option) True
       = Inl AssertionError"
proof -
  have raised: "DynamicGradScaler_init (\<lambda>x. Inl RuntimeError) (Finite 65536) (Finite 1)
       (Finite 2) (Finite (1/2)) 2 1 = (Inl RuntimeError :: error + float_value dynamic_grad_scaler)"
    by (simp add: DynamicGradScaler_init_def GradScaler_init_def)
  have "DynamicGradScaler_init float32_tensor (Finite 65536) (Finite 1) (Finite 2)
          (Finite (1/2)) 2 0 = Inl AssertionError
   \<and> DynamicGradScaler_init float32_tensor (Finite 1) (Finite 2) (Finite 2) (Finite (1/2)) 2 1
     = Inl AssertionError
   \<and> DynamicGradScaler_init float32_tensor (Finite 65536) (Finite 1) (Finite 2)
       (Finite (1 / 2 ^ 160)) 2 1 =
       Inr \<lparr> scale = Finite 65536, min_scale = Finite 1, growth_factor = Finite 2,
             backoff_factor = Finite 0, growth_interval = 2, hysteresis = 1,
             growth_tracker = 0, hysteresis_tracker = 1 \<rparr>
   \<and> AllReduceDP_init example_args [] example_module (None :: unit option) True
       = Inl AssertionError"
    unfolding float32_tensor_def
    by (simp add: construction_preconditions [THEN conjunct2] round_float32_def)
  then show ?thesis using raised by simp
qed

theorem construction_nan_counterexample:
  "DynamicGradScaler_init float32_tensor NaN (Finite 1) (Finite 2) (Finite (1/2)) 2 1
     = Inl AssertionError
   \<and> \<not> NaN \<le> (0::float_value) \<and> \<not> Finite 1 \<le> (0::float_value) \<and> \<not> NaN < Finite 1
   \<and> \<not> Finite 2 \<le> (1::float_value) \<and> \<not> Finite (1/2) \<le> (0::float_value)
   \<and> \<not> (1::float_value) \<le> Finite (1/2) \<and> \<not> (2::int) \<le> 0 \<and> \<not> (1::int) \<le> 0"
  by (simp add: DynamicGradScaler_init_def GradScaler_init_def)

end
